theory Spec2Isabelle
  imports Complex_Main "HOL-Library.AList"
begin

section \<open>JavaScript values\<close>

text \<open>
  The entity manager of the content-manager plugin
  (\<^verbatim>\<open>packages/core/content-manager/server/src/services/entity-manager.ts\<close>)
  works on untyped JavaScript values: entries, request bodies and store results are plain
  objects whose fields are read, written and deleted by name.
\<close>

subsection \<open>Numbers\<close>

text \<open>
  A number is an IEEE 754 double. \<open>Fin x\<close> is the finite double of value \<open>x\<close>; a
  result of arithmetic or of parsing is the exact result rounded to the nearest double,
  ties to even. The sign of zero is not tracked: it is observable only through a
  division by zero.
\<close>

datatype jsnum = NaN | PosInf | NegInf | Fin rat

text \<open>Rounding to the nearest integer, ties to even.\<close>

definition roundHalfEven :: "rat \<Rightarrow> int" where
  "roundHalfEven q =
     (let f = \<lfloor>q\<rfloor>; r = q - of_int f
      in if r < 1 / 2 then f else if 1 / 2 < r then f + 1 else if even f then f else f + 1)"

text \<open>
  The binary exponent of a positive rational: for \<open>1 \<le> a\<close> the \<open>e\<close> with
  \<open>2 ^ e \<le> a < 2 ^ (e + 1)\<close>, for \<open>0 < a < 1\<close> the \<open>d\<close> with \<open>1 \<le> a * 2 ^ d < 2\<close>.
\<close>

function binade_up :: "rat \<Rightarrow> nat" where
  "binade_up a = (if a < 2 then 0 else Suc (binade_up (a / 2)))"
  by pat_completeness auto
termination
proof (relation "measure (\<lambda>a. nat \<lfloor>a\<rfloor>)")
  show "wf (measure (\<lambda>a::rat. nat \<lfloor>a\<rfloor>))" by simp
next
  fix a :: rat
  assume "\<not> a < 2"
  then have "a / 2 \<le> a - 1" by simp
  then have "\<lfloor>a / 2\<rfloor> \<le> \<lfloor>a - 1\<rfloor>" by (rule floor_mono)
  moreover have "1 \<le> \<lfloor>a\<rfloor>" using \<open>\<not> a < 2\<close> by linarith
  ultimately show "(a / 2, a) \<in> measure (\<lambda>a. nat \<lfloor>a\<rfloor>)" by simp
qed

function binade_down :: "rat \<Rightarrow> nat" where
  "binade_down a = (if a \<le> 0 \<or> 1 \<le> a then 0 else Suc (binade_down (a * 2)))"
  by pat_completeness auto
termination
proof (relation "measure (\<lambda>a. nat \<lfloor>1 / a\<rfloor>)")
  show "wf (measure (\<lambda>a::rat. nat \<lfloor>1 / a\<rfloor>))" by simp
next
  fix a :: rat
  assume "\<not> (a \<le> 0 \<or> 1 \<le> a)"
  then have a: "0 < a" "a < 1" by auto
  then have "1 < 1 / a" by simp
  then have f1: "1 \<le> \<lfloor>1 / a\<rfloor>" by linarith
  have "1 / a < of_int \<lfloor>1 / a\<rfloor> + 1" by linarith
  then have "1 / (a * 2) < (of_int \<lfloor>1 / a\<rfloor> + 1) / 2" by simp
  also have "\<dots> \<le> of_int \<lfloor>1 / a\<rfloor>" using f1 by simp
  finally have "\<lfloor>1 / (a * 2)\<rfloor> < \<lfloor>1 / a\<rfloor>" by (simp add: floor_less_iff)
  then show "(a * 2, a) \<in> measure (\<lambda>a. nat \<lfloor>1 / a\<rfloor>)" using f1 by simp
qed

declare binade_up.simps [simp del] binade_down.simps [simp del]

text \<open>
  The distance of neighbouring doubles around a positive \<open>a\<close>: 53 significant bits, the
  least exponent \<open>-1022\<close>, below which the doubles are the multiples of \<open>2 ^ -1074\<close>.
\<close>

definition ulp :: "rat \<Rightarrow> rat" where
  "ulp a = (if 1 \<le> a then 2 ^ binade_up a / 2 ^ 52
            else 1 / 2 ^ (min (binade_down a) 1022 + 52))"

text \<open>
  The double nearest to a rational, ties to even; a magnitude that rounds to
  \<open>2 ^ 1024\<close> or more is an infinity.
\<close>

definition roundToDouble :: "rat \<Rightarrow> jsnum" where
  "roundToDouble x =
     (if x = 0 then Fin 0
      else let a = \<bar>x\<bar>;
               y = of_int (roundHalfEven (a / ulp a)) * ulp a
           in if 2 ^ 1024 \<le> y then (if 0 < x then PosInf else NegInf)
              else Fin (if 0 < x then y else - y))"

text \<open>\<open>a / b\<close> on numbers: the cases of IEEE division, the quotient of finite numbers
  rounded.\<close>

fun js_div :: "jsnum \<Rightarrow> jsnum \<Rightarrow> jsnum" where
  "js_div NaN _ = NaN"
| "js_div _ NaN = NaN"
| "js_div (Fin x) (Fin y) =
     (if y = 0 then (if x = 0 then NaN else if 0 < x then PosInf else NegInf)
      else roundToDouble (x / y))"
| "js_div (Fin x) _ = Fin 0"
| "js_div PosInf (Fin y) = (if 0 \<le> y then PosInf else NegInf)"
| "js_div NegInf (Fin y) = (if 0 \<le> y then NegInf else PosInf)"
| "js_div _ _ = NaN"

text \<open>\<open>Math.ceil\<close>: the least integer not below a double is a double.\<close>

fun js_ceil :: "jsnum \<Rightarrow> jsnum" where
  "js_ceil (Fin x) = Fin (of_int \<lceil>x\<rceil>)"
| "js_ceil n = n"

subsection \<open>Strings as numbers\<close>

text \<open>
  \<open>StringToNumber\<close> of the language: white space is trimmed; the empty string is 0; a
  binary, octal or hexadecimal integer literal has no sign; a decimal literal has an
  optional sign, digits with an optional fraction (or a fraction alone) and an optional
  exponent, or is \<open>Infinity\<close>; everything else is \<open>NaN\<close>. The value is rounded to a
  double. A string is the list of its code units, of which the type has the first 256.
\<close>

definition isStrWhiteSpaceChar :: "char \<Rightarrow> bool" where
  "isStrWhiteSpaceChar c = ((of_char c :: nat) \<in> {9, 10, 11, 12, 13, 32, 160})"

definition trimString :: "string \<Rightarrow> string" where
  "trimString s = rev (dropWhile isStrWhiteSpaceChar (rev (dropWhile isStrWhiteSpaceChar s)))"

definition digitValue :: "char \<Rightarrow> nat option" where
  "digitValue c =
     (let n = (of_char c :: nat)
      in if 48 \<le> n \<and> n \<le> 57 then Some (n - 48)
         else if 97 \<le> n \<and> n \<le> 102 then Some (n - 87)
         else if 65 \<le> n \<and> n \<le> 70 then Some (n - 55)
         else None)"

definition isDigitOf :: "nat \<Rightarrow> char \<Rightarrow> bool" where
  "isDigitOf b c = (case digitValue c of None \<Rightarrow> False | Some d \<Rightarrow> d < b)"

definition isDigits :: "nat \<Rightarrow> string \<Rightarrow> bool" where
  "isDigits b ds = (ds \<noteq> [] \<and> list_all (isDigitOf b) ds)"

definition digitsValue :: "nat \<Rightarrow> string \<Rightarrow> nat" where
  "digitsValue b ds =
     foldl (\<lambda>acc c. acc * b + (case digitValue c of None \<Rightarrow> 0 | Some d \<Rightarrow> d)) 0 ds"

definition nonDecimalIntegerLiteral :: "string \<Rightarrow> nat option" where
  "nonDecimalIntegerLiteral t =
     (case t of
        c0 # c1 # ds \<Rightarrow>
          if c0 = CHR ''0'' \<and> (c1 = CHR ''x'' \<or> c1 = CHR ''X'') \<and> isDigits 16 ds
            then Some (digitsValue 16 ds)
          else if c0 = CHR ''0'' \<and> (c1 = CHR ''o'' \<or> c1 = CHR ''O'') \<and> isDigits 8 ds
            then Some (digitsValue 8 ds)
          else if c0 = CHR ''0'' \<and> (c1 = CHR ''b'' \<or> c1 = CHR ''B'') \<and> isDigits 2 ds
            then Some (digitsValue 2 ds)
          else None
      | _ \<Rightarrow> None)"

text \<open>The exponent after the digits: none, or \<open>e\<close> and a signed integer.\<close>

definition exponentPart :: "string \<Rightarrow> int option" where
  "exponentPart r =
     (case r of
        [] \<Rightarrow> Some 0
      | c # ds \<Rightarrow>
          if c = CHR ''e'' \<or> c = CHR ''E'' then
            (case ds of
               [] \<Rightarrow> None
             | d # ds' \<Rightarrow>
                 if d = CHR ''+'' then
                   (if isDigits 10 ds' then Some (int (digitsValue 10 ds')) else None)
                 else if d = CHR ''-'' then
                   (if isDigits 10 ds' then Some (- int (digitsValue 10 ds')) else None)
                 else (if isDigits 10 ds then Some (int (digitsValue 10 ds)) else None))
          else None)"

definition pow10 :: "int \<Rightarrow> rat" where
  "pow10 e = (if 0 \<le> e then 10 ^ nat e else 1 / 10 ^ nat (- e))"

definition strUnsignedDecimalLiteral :: "string \<Rightarrow> rat option" where
  "strUnsignedDecimalLiteral u =
     (let ip = takeWhile (isDigitOf 10) u;
          r1 = dropWhile (isDigitOf 10) u;
          dot = (r1 \<noteq> [] \<and> hd r1 = CHR ''.'');
          fp = (if dot then takeWhile (isDigitOf 10) (tl r1) else []);
          r2 = (if dot then dropWhile (isDigitOf 10) (tl r1) else r1)
      in if ip = [] \<and> fp = [] then None
         else case exponentPart r2 of
                None \<Rightarrow> None
              | Some e \<Rightarrow>
                  Some (of_nat (digitsValue 10 (ip @ fp)) * pow10 (e - int (length fp))))"

definition StringToNumber :: "string \<Rightarrow> jsnum" where
  "StringToNumber s =
     (let t = trimString s
      in if t = [] then Fin 0
         else case nonDecimalIntegerLiteral t of
                Some n \<Rightarrow> roundToDouble (of_nat n)
              | None \<Rightarrow>
                  (let neg = (hd t = CHR ''-'');
                       u = (if hd t = CHR ''+'' \<or> hd t = CHR ''-'' then tl t else t)
                   in if u = ''Infinity'' then (if neg then NegInf else PosInf)
                      else case strUnsignedDecimalLiteral u of
                             None \<Rightarrow> NaN
                           | Some mv \<Rightarrow> roundToDouble (if neg then - mv else mv)))"

subsection \<open>Values\<close>

text \<open>
  An object is a plain object: the list of its own data properties in insertion order,
  with \<open>Object.prototype\<close> behind it. No value is a function. A \<open>Date\<close> carries its
  time value in milliseconds.
\<close>

datatype jsval =
    JUndefined
  | JNull
  | JBool bool
  | JNum jsnum
  | JStr string
  | JDate int
  | JArr "jsval list"
  | JObj "(string \<times> jsval) list"

type_synonym obj = "(string \<times> jsval) list"

datatype error =
    ApplicationError string
  | ValidationError string
  | TypeError

text \<open>\<open>ToBoolean\<close>: the values that a condition, \<open>!\<close> and \<open>||\<close> treat as false are
  \<open>undefined\<close>, \<open>null\<close>, \<open>false\<close>, \<open>NaN\<close>, zero and the empty string.\<close>

fun ToBoolean :: "jsval \<Rightarrow> bool" where
  "ToBoolean JUndefined = False"
| "ToBoolean JNull = False"
| "ToBoolean (JBool b) = b"
| "ToBoolean (JNum n) = (n \<noteq> NaN \<and> n \<noteq> Fin 0)"
| "ToBoolean (JStr s) = (s \<noteq> [])"
| "ToBoolean (JDate t) = True"
| "ToBoolean (JArr xs) = True"
| "ToBoolean (JObj m) = True"

text \<open>
  The conversion of an object to a primitive asks its \<open>valueOf\<close> and its \<open>toString\<close>.
  An own property of one of these names is not a function and is passed over; the
  \<open>valueOf\<close> of \<open>Object.prototype\<close> returns the object, which is no primitive; so a
  plain object converts to \<open>[object Object]\<close>, unless it has an own property
  \<open>toString\<close>: then nothing is left to call and the conversion throws a \<open>TypeError\<close>.
  An array converts by \<open>join\<close>, which converts every element but \<open>undefined\<close> and
  \<open>null\<close> to a string.
\<close>

fun ToString_throws :: "jsval \<Rightarrow> bool" where
  "ToString_throws JUndefined = False"
| "ToString_throws JNull = False"
| "ToString_throws (JBool b) = False"
| "ToString_throws (JNum n) = False"
| "ToString_throws (JStr s) = False"
| "ToString_throws (JDate t) = False"
| "ToString_throws (JArr xs) = (\<exists>x\<in>set xs. ToString_throws x)"
| "ToString_throws (JObj m) = (map_of m ''toString'' \<noteq> None)"

text \<open>
  The number that is read from the string an array becomes. The empty array becomes the
  empty string; an array of one element becomes the string of the element, where
  \<open>undefined\<close> and \<open>null\<close> are the empty string and the string of a number reads back
  as that number; a longer array has a comma in its string, and so has no number in it.
  A boolean, a date and an object become strings that are no numeric literals.
\<close>

fun joinNumber :: "jsval \<Rightarrow> jsnum" where
  "joinNumber JUndefined = Fin 0"
| "joinNumber JNull = Fin 0"
| "joinNumber (JBool b) = NaN"
| "joinNumber (JNum n) = n"
| "joinNumber (JStr s) = StringToNumber s"
| "joinNumber (JDate t) = NaN"
| "joinNumber (JArr xs) =
     (case xs of
        [] \<Rightarrow> Fin 0
      | v # vs \<Rightarrow> (case vs of [] \<Rightarrow> joinNumber v | _ \<Rightarrow> NaN))"
| "joinNumber (JObj m) = NaN"

text \<open>\<open>Number(v)\<close>, and the conversion of an operand of \<open>/\<close>.\<close>

fun Number_js :: "jsval \<Rightarrow> error + jsnum" where
  "Number_js JUndefined = Inr NaN"
| "Number_js JNull = Inr (Fin 0)"
| "Number_js (JBool b) = Inr (if b then Fin 1 else Fin 0)"
| "Number_js (JNum n) = Inr n"
| "Number_js (JStr s) = Inr (StringToNumber s)"
| "Number_js (JDate t) = Inr (Fin (of_int t))"
| "Number_js (JArr xs) =
     (if ToString_throws (JArr xs) then Inl TypeError else Inr (joinNumber (JArr xs)))"
| "Number_js (JObj m) = (if ToString_throws (JObj m) then Inl TypeError else Inr NaN)"

subsection \<open>Objects\<close>

text \<open>\<open>o.k\<close> on an object: the value of the property, \<open>undefined\<close> when there is none.\<close>

definition obj_get :: "obj \<Rightarrow> string \<Rightarrow> jsval" where
  "obj_get m k = (case map_of m k of None \<Rightarrow> JUndefined | Some v \<Rightarrow> v)"

text \<open>\<open>o.k = v\<close>: an existing property keeps its place, a new one is appended.\<close>

definition obj_set :: "string \<Rightarrow> jsval \<Rightarrow> obj \<Rightarrow> obj" where
  "obj_set k v m = AList.update k v m"

text \<open>\<open>delete o.k\<close>, and \<open>omit(k)\<close> of lodash/fp on an object.\<close>

definition obj_delete :: "string \<Rightarrow> obj \<Rightarrow> obj" where
  "obj_delete k m = AList.delete k m"

text \<open>
  \<open>v?.k\<close>: \<open>undefined\<close> when \<open>v\<close> is \<open>null\<close> or \<open>undefined\<close>; the other
  values that are not objects have none of the properties the entity manager reads this
  way (\<open>page\<close>, \<open>pageSize\<close>, \<open>results\<close>).
\<close>

fun js_get_opt :: "jsval \<Rightarrow> string \<Rightarrow> jsval" where
  "js_get_opt (JObj m) k = obj_get m k"
| "js_get_opt v k = JUndefined"

section \<open>Constants of the plugin\<close>

text \<open>
  Modelled from the spec: \<open>contentTypes.constants.PUBLISHED_AT_ATTRIBUTE\<close> of
  \<^verbatim>\<open>@strapi/utils\<close> is imported by the entity manager and is not among the source
  files; the spec names the attribute \<open>publishedAt\<close>.
\<close>

definition PUBLISHED_AT_ATTRIBUTE :: string where
  "PUBLISHED_AT_ATTRIBUTE = ''publishedAt''"

text \<open>
  Modelled from the spec: \<open>ALLOWED_WEBHOOK_EVENTS\<close> of \<^verbatim>\<open>../constants\<close> is not
  among the source files; the spec speaks of the \<open>publish\<close> and the \<open>unpublish\<close>
  lifecycle event, which are kept apart as two names.
\<close>

datatype event_name = ENTRY_PUBLISH | ENTRY_UNPUBLISH

section \<open>Identifier remapping\<close>

text \<open>
  \<^verbatim>\<open>
  mapEntity<T = any>(entity: any, uid?: Common.UID.ContentType): T {
    if (entity.documentId) {
      entity.entryId = entity.id;
      entity.id = entity.documentId;
      delete entity.documentId;
    }
    return entity;
  }
  \<close>
  The source updates the entry in place and returns it; the model returns the updated
  value. \<open>uid\<close> is not used.
\<close>

definition remap :: "obj \<Rightarrow> obj" where
  "remap m =
     (let m1 = obj_set ''entryId'' (obj_get m ''id'') m;
          m2 = obj_set ''id'' (obj_get m1 ''documentId'') m1
      in obj_delete ''documentId'' m2)"

fun mapEntity :: "jsval \<Rightarrow> error + jsval" where
  "mapEntity JUndefined = Inl TypeError"
| "mapEntity JNull = Inl TypeError"
| "mapEntity (JObj m) =
     (if ToBoolean (obj_get m ''documentId'') then Inr (JObj (remap m)) else Inr (JObj m))"
| "mapEntity v = Inr v"

text \<open>
  Modelled from the spec: \<open>mapAsync\<close> of \<^verbatim>\<open>@strapi/utils\<close> is not among the source
  files. It asks its first argument for an iterator, applies the function to every
  element and collects the results in the order of the elements; the first failure is the
  failure of the whole. A list iterates over its elements and a string over its
  characters; a value of another kind has no iterator, which is a \<open>TypeError\<close>.
\<close>

fun iterate :: "jsval \<Rightarrow> error + jsval list" where
  "iterate (JArr es) = Inr es"
| "iterate (JStr s) = Inr (map (\<lambda>c. JStr [c]) s)"
| "iterate v = Inl TypeError"

fun mapEach :: "'a list \<Rightarrow> ('a \<Rightarrow> error + 'b) \<Rightarrow> error + 'b list" where
  "mapEach [] f = Inr []"
| "mapEach (x # xs) f =
     (case f x of
        Inl e \<Rightarrow> Inl e
      | Inr y \<Rightarrow> (case mapEach xs f of Inl e \<Rightarrow> Inl e | Inr ys \<Rightarrow> Inr (y # ys)))"

definition mapAsync :: "jsval \<Rightarrow> (jsval \<Rightarrow> error + jsval) \<Rightarrow> error + jsval list" where
  "mapAsync iterable f =
     (case iterate iterable of Inl e \<Rightarrow> Inl e | Inr xs \<Rightarrow> mapEach xs f)"

text \<open>
  \<^verbatim>\<open>
  async mapEntitiesResponse(entities: any, uid: Common.UID.ContentType) {
    if (entities?.results) {
      const mappedResults = await mapAsync(entities.results, (entity: Entity) =>
        this.mapEntity(entity, uid)
      );
      return { ...entities, results: mappedResults };
    }
    // if entity is single type
    return this.mapEntity(entities, uid);
  }
  \<close>
  Only an object has a \<open>results\<close>.
\<close>

fun mapEntitiesResponse :: "jsval \<Rightarrow> error + jsval" where
  "mapEntitiesResponse (JObj m) =
     (if ToBoolean (obj_get m ''results'') then
        (case mapAsync (obj_get m ''results'') mapEntity of
           Inl e \<Rightarrow> Inl e
         | Inr mappedResults \<Rightarrow> Inr (JObj (obj_set ''results'' (JArr mappedResults) m)))
      else mapEntity (JObj m))"
| "mapEntitiesResponse v = mapEntity v"

section \<open>Collaborators and effects\<close>

text \<open>
  The entity manager owns no state. Everything it does goes through collaborators that
  are outside the source files: the document service (\<open>strapi.documents(uid)\<close>), the
  entity service, the query engine (\<open>strapi.db.query(uid)\<close>), the entity validator, the
  event hub, the populate builder and the feature flag of the webhooks. They are the
  fields of an environment; the store they act on is a type parameter, and every
  theorem below holds for all of them.

  Collaborators are taken to return; a validator reports its failure as a value.
\<close>

record modelDef =
  modelName :: string

record 's env =
  documents_findMany :: "string \<Rightarrow> jsval \<Rightarrow> 's \<Rightarrow> jsval"
  documents_count :: "string \<Rightarrow> jsval \<Rightarrow> 's \<Rightarrow> jsval"
  documents_findOne :: "string \<Rightarrow> jsval \<Rightarrow> jsval \<Rightarrow> 's \<Rightarrow> jsval"
  documents_create :: "string \<Rightarrow> jsval \<Rightarrow> 's \<Rightarrow> jsval \<times> 's"
  documents_update :: "string \<Rightarrow> jsval \<Rightarrow> jsval \<Rightarrow> 's \<Rightarrow> jsval \<times> 's"
  db_updateMany :: "string \<Rightarrow> jsval \<Rightarrow> 's \<Rightarrow> jsval \<times> 's"
  entityService_findMany :: "string \<Rightarrow> jsval \<Rightarrow> 's \<Rightarrow> jsval"
  entityService_update :: "string \<Rightarrow> jsval \<Rightarrow> jsval \<Rightarrow> 's \<Rightarrow> jsval \<times> 's"
  validateEntityCreation :: "modelDef \<Rightarrow> obj \<Rightarrow> error + jsval"
  getModel :: "string \<Rightarrow> modelDef"
  defaultSanitizeOutput :: "modelDef \<Rightarrow> jsval \<Rightarrow> jsval"
  populate_builder :: "string \<Rightarrow> bool \<Rightarrow> jsval"
  isWebhooksPopulateRelationsEnabled :: bool
  getDeepRelationsCount :: "jsval \<Rightarrow> string \<Rightarrow> jsval"
  now :: int

text \<open>
  What the entity manager asks of the outside is recorded, call by call, in the order of
  the calls: the trace is how a theorem says that a bulk update was or was not issued, or
  how many events were emitted.
\<close>

datatype call =
    BuildDeepPopulate string
  | DocumentsFindMany string jsval
  | DocumentsCount string jsval
  | DocumentsFindOne string jsval jsval
  | DocumentsCreate string jsval
  | DocumentsUpdate string jsval jsval
  | DbUpdateMany string jsval
  | EntityServiceFindMany string jsval
  | EntityServiceUpdate string jsval jsval
  | Emit event_name jsval

record 's world =
  store :: 's
  trace :: "call list"

definition issue :: "call \<Rightarrow> 's world \<Rightarrow> 's world" where
  "issue c w = w\<lparr>trace := trace w @ [c]\<rparr>"

text \<open>
  \<^verbatim>\<open>
  const emitEvent = async (uid, event: string, entity: Entity) => {
    const modelDef = strapi.getModel(uid);
    const sanitizedEntity = await sanitize.sanitizers.defaultSanitizeOutput(modelDef, entity);
    strapi.eventHub.emit(event, { model: modelDef.modelName, entry: sanitizedEntity });
  };
  \<close>
\<close>

definition emitEvent :: "'s env \<Rightarrow> string \<Rightarrow> event_name \<Rightarrow> jsval \<Rightarrow> 's world \<Rightarrow> 's world" where
  "emitEvent env uid event entity w =
     (let modelDef = getModel env uid;
          sanitizedEntity = defaultSanitizeOutput env modelDef entity
      in issue (Emit event (JObj [(''model'', JStr (modelName modelDef)),
                                   (''entry'', sanitizedEntity)])) w)"

text \<open>
  \<^verbatim>\<open>
  const buildDeepPopulate = (uid) => {
    return getService('populate-builder')(uid)
      .populateDeep(Infinity)
      .countRelationsIf(!isWebhooksPopulateRelationsEnabled())
      .build();
  };
  \<close>
\<close>

definition buildDeepPopulate :: "'s env \<Rightarrow> string \<Rightarrow> 's world \<Rightarrow> jsval \<times> 's world" where
  "buildDeepPopulate env uid w =
     (populate_builder env uid (\<not> isWebhooksPopulateRelationsEnabled env),
      issue (BuildDeepPopulate uid) w)"

text \<open>
  \<open>Promise.all\<close> over promises that were all started: the list of the results, or a
  failure. Which failure wins is a matter of timing in the source; the model takes the
  first one in the order of the list.
\<close>

fun Promise_all :: "(error + 'a) list \<Rightarrow> error + 'a list" where
  "Promise_all [] = Inr []"
| "Promise_all (Inl e # ps) = Inl e"
| "Promise_all (Inr x # ps) = (case Promise_all ps of Inl e \<Rightarrow> Inl e | Inr xs \<Rightarrow> Inr (x # xs))"

text \<open>The tail of several operations: count the relations when the flag is set.\<close>

definition relationsCountIfEnabled :: "'s env \<Rightarrow> jsval \<Rightarrow> string \<Rightarrow> jsval" where
  "relationsCountIfEnabled env entity uid =
     (if isWebhooksPopulateRelationsEnabled env then getDeepRelationsCount env entity uid
      else entity)"

section \<open>Reading\<close>

text \<open>\<open>Number(x) || d\<close>: the number when it is truthy, the default otherwise.\<close>

definition num_or :: "jsnum \<Rightarrow> jsnum \<Rightarrow> jsnum" where
  "num_or n d = (if ToBoolean (JNum n) then n else d)"

text \<open>
  \<^verbatim>\<open>
  async findPage(opts, uid) {
    const page = Number(opts?.page) || 1;
    const pageSize = Number(opts?.pageSize) || 10;
    const [documents, total = 0] = await Promise.all([
      strapi.documents(uid).findMany(opts),
      strapi.documents(uid).count(opts),
    ]);
    const result = {
      results: documents,
      pagination: { page, pageSize, pageCount: Math.ceil(total! / pageSize), total },
    };
    return this.mapEntitiesResponse(result, uid);
  }
  \<close>
  A conversion to a number that throws ends the call where it stands: that of \<open>page\<close>
  and \<open>pageSize\<close> before the queries, that of \<open>total\<close>, an operand of the division,
  after them.
\<close>

definition findPage :: "'s env \<Rightarrow> jsval \<Rightarrow> string \<Rightarrow> 's world \<Rightarrow> (error + jsval) \<times> 's world" where
  "findPage env opts uid w =
     (case Number_js (js_get_opt opts ''page'') of
        Inl e \<Rightarrow> (Inl e, w)
      | Inr pageNumber \<Rightarrow>
     (case Number_js (js_get_opt opts ''pageSize'') of
        Inl e \<Rightarrow> (Inl e, w)
      | Inr pageSizeNumber \<Rightarrow>
          (let page = num_or pageNumber (Fin 1);
               pageSize = num_or pageSizeNumber (Fin 10);
               documents = documents_findMany env uid opts (store w);
               counted = documents_count env uid opts (store w);
               w1 = issue (DocumentsCount uid opts) (issue (DocumentsFindMany uid opts) w);
               total = (if counted = JUndefined then JNum (Fin 0) else counted)
           in case Number_js total of
                Inl e \<Rightarrow> (Inl e, w1)
              | Inr totalNumber \<Rightarrow>
                  (mapEntitiesResponse
                     (JObj [(''results'', documents),
                            (''pagination'',
                             JObj [(''page'', JNum page),
                                   (''pageSize'', JNum pageSize),
                                   (''pageCount'', JNum (js_ceil (js_div totalNumber pageSize))),
                                   (''total'', total)])]),
                   w1))))"

text \<open>
  \<^verbatim>\<open>
  async findOne(id: string, uid, opts = {}) {
    return strapi.documents(uid).findOne(id, opts)
      .then((entity: Entity) => this.mapEntity(entity, uid));
  }
  \<close>
\<close>

definition findOne :: "'s env \<Rightarrow> jsval \<Rightarrow> string \<Rightarrow> jsval \<Rightarrow> 's world \<Rightarrow> (error + jsval) \<times> 's world" where
  "findOne env ident uid opts w =
     (let opts1 = (if opts = JUndefined then JObj [] else opts);
          entity = documents_findOne env uid ident opts1 (store w);
          w1 = issue (DocumentsFindOne uid ident opts1) w
      in (mapEntity entity, w1))"

section \<open>Writing\<close>

text \<open>
  \<^verbatim>\<open>
  async create(body: Body, uid) {
    const publishData = { ...body } as any;
    const populate = await buildDeepPopulate(uid);
    publishData[PUBLISHED_AT_ATTRIBUTE] = null;
    const params = { data: publishData, populate };
    const entity = await strapi.documents(uid).create(params)
      .then((entity: Entity) => this.mapEntity(entity, uid));
    if (isWebhooksPopulateRelationsEnabled()) {
      return getDeepRelationsCount(entity, uid);
    }
    return entity;
  }
  \<close>
\<close>

definition create :: "'s env \<Rightarrow> obj \<Rightarrow> string \<Rightarrow> 's world \<Rightarrow> (error + jsval) \<times> 's world" where
  "create env body uid w =
     (let publishData = body;
          (populate, w1) = buildDeepPopulate env uid w;
          publishData = obj_set PUBLISHED_AT_ATTRIBUTE JNull publishData;
          params = JObj [(''data'', JObj publishData), (''populate'', populate)];
          (created, s2) = documents_create env uid params (store w1);
          w2 = issue (DocumentsCreate uid params) (w1\<lparr>store := s2\<rparr>)
      in case mapEntity created of
           Inl e \<Rightarrow> (Inl e, w2)
         | Inr entity \<Rightarrow> (Inr (relationsCountIfEnabled env entity uid), w2))"

text \<open>
  \<^verbatim>\<open>
  async update(document: Entity, body: Partial<Body>, uid) {
    const publishData = omitPublishedAtField(body);
    const populate = await buildDeepPopulate(uid);
    delete publishData.id;
    const params = { data: publishData, populate };
    const updatedDocument = await strapi.documents(uid).update(document.id, params)
      .then((document: Entity) => this.mapEntity(document, uid));
    if (isWebhooksPopulateRelationsEnabled()) {
      return getDeepRelationsCount(updatedDocument, uid);
    }
    return updatedDocument;
  }
  \<close>
  with \<open>omitPublishedAtField = omit(PUBLISHED_AT_ATTRIBUTE)\<close>.
\<close>

definition omitPublishedAtField :: "obj \<Rightarrow> obj" where
  "omitPublishedAtField body = obj_delete PUBLISHED_AT_ATTRIBUTE body"

definition update :: "'s env \<Rightarrow> obj \<Rightarrow> obj \<Rightarrow> string \<Rightarrow> 's world \<Rightarrow> (error + jsval) \<times> 's world" where
  "update env document body uid w =
     (let publishData = omitPublishedAtField body;
          (populate, w1) = buildDeepPopulate env uid w;
          publishData = obj_delete ''id'' publishData;
          params = JObj [(''data'', JObj publishData), (''populate'', populate)];
          (updated, s2) = documents_update env uid (obj_get document ''id'') params (store w1);
          w2 = issue (DocumentsUpdate uid (obj_get document ''id'') params) (w1\<lparr>store := s2\<rparr>)
      in case mapEntity updated of
           Inl e \<Rightarrow> (Inl e, w2)
         | Inr updatedDocument \<Rightarrow> (Inr (relationsCountIfEnabled env updatedDocument uid), w2))"


section \<open>Publishing\<close>

text \<open>
  \<^verbatim>\<open>
  async publishMany(entities: Entity[], uid) {
    if (!entities.length) {
      return null;
    }
    // Validate entities before publishing, throw if invalid
    await Promise.all(
      entities.map((entity: Entity) => {
        return strapi.entityValidator.validateEntityCreation(
          strapi.getModel(uid), entity, undefined, entity);
      })
    );
    // Only publish entities without a published_at date
    const entitiesToPublish = entities
      .filter((entity: Entity) => !entity[PUBLISHED_AT_ATTRIBUTE])
      .map((entity: Entity) => entity.id);
    const filters = { id: { $in: entitiesToPublish } };
    const data = { [PUBLISHED_AT_ATTRIBUTE]: new Date() };
    const populate = await buildDeepPopulate(uid);
    // Everything is valid, publish
    const publishedEntitiesCount = await strapi.db.query(uid).updateMany({
      where: filters,
      data,
    });
    // Get the updated entities since updateMany only returns the count
    const publishedEntities = await strapi.entityService.findMany(uid, { filters, populate });
    // Emit the publish event for all updated entities
    await Promise.all(
      publishedEntities!.map((entity: Entity) => emitEvent(uid, ENTRY_PUBLISH, entity))
    );
    // Return the number of published entities
    return publishedEntitiesCount;
  }
  \<close>
  The events of one batch are emitted concurrently in the source; the model emits them
  in the order of the list.
\<close>

definition idsWhere :: "(obj \<Rightarrow> bool) \<Rightarrow> obj list \<Rightarrow> jsval list" where
  "idsWhere keep entities = map (\<lambda>entity. obj_get entity ''id'') (filter keep entities)"

definition idFilters :: "jsval list \<Rightarrow> jsval" where
  "idFilters ids = JObj [(''id'', JObj [(''$in'', JArr ids)])]"

definition emitEvents :: "'s env \<Rightarrow> string \<Rightarrow> event_name \<Rightarrow> jsval list \<Rightarrow> 's world \<Rightarrow> 's world" where
  "emitEvents env uid event es w = fold (emitEvent env uid event) es w"

definition publishMany :: "'s env \<Rightarrow> obj list \<Rightarrow> string \<Rightarrow> 's world \<Rightarrow> (error + jsval) \<times> 's world" where
  "publishMany env entities uid w =
     (if entities = [] then (Inr JNull, w)
      else
        case Promise_all (map (validateEntityCreation env (getModel env uid)) entities) of
          Inl e \<Rightarrow> (Inl e, w)
        | Inr _ \<Rightarrow>
            (let entitiesToPublish =
                   idsWhere (\<lambda>entity. \<not> ToBoolean (obj_get entity PUBLISHED_AT_ATTRIBUTE)) entities;
                 filters = idFilters entitiesToPublish;
                 data = JObj [(PUBLISHED_AT_ATTRIBUTE, JDate (now env))];
                 (populate, w1) = buildDeepPopulate env uid w;
                 updateParams = JObj [(''where'', filters), (''data'', data)];
                 (publishedEntitiesCount, s2) = db_updateMany env uid updateParams (store w1);
                 w2 = issue (DbUpdateMany uid updateParams) (w1\<lparr>store := s2\<rparr>);
                 findParams = JObj [(''filters'', filters), (''populate'', populate)];
                 publishedEntities = entityService_findMany env uid findParams (store w2);
                 w3 = issue (EntityServiceFindMany uid findParams) w2
             in case publishedEntities of
                  JArr es \<Rightarrow> (Inr publishedEntitiesCount, emitEvents env uid ENTRY_PUBLISH es w3)
                | _ \<Rightarrow> (Inl TypeError, w3)))"

text \<open>
  \<^verbatim>\<open>
  async unpublishMany(entities: Entity[], uid) {
    if (!entities.length) {
      return null;
    }
    // Only unpublish entities with a published_at date
    const entitiesToUnpublish = entities
      .filter((entity: Entity) => entity[PUBLISHED_AT_ATTRIBUTE])
      .map((entity: Entity) => entity.id);
    const filters = { id: { $in: entitiesToUnpublish } };
    const data = { [PUBLISHED_AT_ATTRIBUTE]: null };
    const populate = await buildDeepPopulate(uid);
    // No need to validate, unpublish
    const unpublishedEntitiesCount = await strapi.db.query(uid).updateMany({
      where: filters,
      data,
    });
    const unpublishedEntities = await strapi.entityService.findMany(uid, { filters, populate });
    await Promise.all(
      unpublishedEntities!.map((entity: Entity) => emitEvent(uid, ENTRY_UNPUBLISH, entity))
    );
    return unpublishedEntitiesCount;
  }
  \<close>
\<close>

definition unpublishMany :: "'s env \<Rightarrow> obj list \<Rightarrow> string \<Rightarrow> 's world \<Rightarrow> (error + jsval) \<times> 's world" where
  "unpublishMany env entities uid w =
     (if entities = [] then (Inr JNull, w)
      else
        (let entitiesToUnpublish =
               idsWhere (\<lambda>entity. ToBoolean (obj_get entity PUBLISHED_AT_ATTRIBUTE)) entities;
             filters = idFilters entitiesToUnpublish;
             data = JObj [(PUBLISHED_AT_ATTRIBUTE, JNull)];
             (populate, w1) = buildDeepPopulate env uid w;
             updateParams = JObj [(''where'', filters), (''data'', data)];
             (unpublishedEntitiesCount, s2) = db_updateMany env uid updateParams (store w1);
             w2 = issue (DbUpdateMany uid updateParams) (w1\<lparr>store := s2\<rparr>);
             findParams = JObj [(''filters'', filters), (''populate'', populate)];
             unpublishedEntities = entityService_findMany env uid findParams (store w2);
             w3 = issue (EntityServiceFindMany uid findParams) w2
         in case unpublishedEntities of
              JArr es \<Rightarrow> (Inr unpublishedEntitiesCount, emitEvents env uid ENTRY_UNPUBLISH es w3)
            | _ \<Rightarrow> (Inl TypeError, w3)))"

text \<open>
  \<^verbatim>\<open>
  async unpublish(entity: Entity, uid, body = {}) {
    if (!entity[PUBLISHED_AT_ATTRIBUTE]) {
      throw new ApplicationError('already.draft');
    }
    const data = { ...body, [PUBLISHED_AT_ATTRIBUTE]: null };
    const populate = await buildDeepPopulate(uid);
    const params = { data, populate };
    const updatedEntity = await strapi.entityService.update(uid, entity.id, params);
    await emitEvent(uid, ENTRY_UNPUBLISH, updatedEntity!);
    const mappedEntity = await this.mapEntity(updatedEntity, uid);
    if (isWebhooksPopulateRelationsEnabled()) {
      return getDeepRelationsCount(mappedEntity, uid);
    }
    return mappedEntity;
  }
  \<close>
  A call without a body is \<open>None\<close>.
\<close>

definition unpublish :: "'s env \<Rightarrow> obj \<Rightarrow> string \<Rightarrow> obj option \<Rightarrow> 's world \<Rightarrow> (error + jsval) \<times> 's world" where
  "unpublish env entity uid body w =
     (if \<not> ToBoolean (obj_get entity PUBLISHED_AT_ATTRIBUTE) then
        (Inl (ApplicationError ''already.draft''), w)
      else
        (let body1 = (case body of None \<Rightarrow> [] | Some b \<Rightarrow> b);
             data = obj_set PUBLISHED_AT_ATTRIBUTE JNull body1;
             (populate, w1) = buildDeepPopulate env uid w;
             params = JObj [(''data'', JObj data), (''populate'', populate)];
             (updatedEntity, s2) =
               entityService_update env uid (obj_get entity ''id'') params (store w1);
             w2 = issue (EntityServiceUpdate uid (obj_get entity ''id'') params) (w1\<lparr>store := s2\<rparr>);
             w3 = emitEvent env uid ENTRY_UNPUBLISH updatedEntity w2
         in case mapEntity updatedEntity of
              Inl e \<Rightarrow> (Inl e, w3)
            | Inr mappedEntity \<Rightarrow> (Inr (relationsCountIfEnabled env mappedEntity uid), w3)))"


section \<open>Entries of the data model\<close>

text \<open>
  The \<open>publishedAt\<close> attribute of an entry is a nullable timestamp: \<open>null\<close> (or no
  value at all) for a draft, a date for a published entry. A date is a \<open>Date\<close> object or
  a date string, which is never empty.
\<close>

definition is_null :: "jsval \<Rightarrow> bool" where
  "is_null v = (v = JNull \<or> v = JUndefined)"

fun is_timestamp :: "jsval \<Rightarrow> bool" where
  "is_timestamp (JDate t) = True"
| "is_timestamp (JStr s) = (s \<noteq> [])"
| "is_timestamp v = False"

definition publishedAt_typed :: "obj \<Rightarrow> bool" where
  "publishedAt_typed entity =
     (is_null (obj_get entity PUBLISHED_AT_ATTRIBUTE) \<or>
      is_timestamp (obj_get entity PUBLISHED_AT_ATTRIBUTE))"

section \<open>A store in memory\<close>

text \<open>
  Modelled from the spec: the document store, the entity service, the bulk query
  primitive and the validator are outside the source files. This is one environment that
  meets the contracts the spec gives for them, on a store that is the list of the rows of
  one content type. It is the concrete input of the examples; no general theorem
  depends on it.
  \<^item> \<open>updateMany({where, data})\<close> merges \<open>data\<close> into every row whose \<open>id\<close> is in the
    \<open>$in\<close> list of the filter and returns the number of these rows as \<open>{count}\<close>;
  \<^item> \<open>findMany\<close> of the entity service returns the rows the filter selects;
  \<^item> \<open>update\<close> merges the data into the row with the identifier, and returns \<open>null\<close>
    when there is none;
  \<^item> \<open>create\<close> appends the data as a new row;
  \<^item> \<open>findOne\<close> returns the row with the identifier, or \<open>null\<close>;
  \<^item> the documents' \<open>findMany\<close> returns the page asked for and \<open>count\<close> the number of
    rows;
  \<^item> the validator requires a \<open>title\<close>.
\<close>

definition whereIds :: "jsval \<Rightarrow> jsval list" where
  "whereIds filters =
     (case js_get_opt (js_get_opt filters ''id'') ''$in'' of JArr ids \<Rightarrow> ids | _ \<Rightarrow> [])"

definition dataOf :: "jsval \<Rightarrow> obj" where
  "dataOf params = (case js_get_opt params ''data'' of JObj d \<Rightarrow> d | _ \<Rightarrow> [])"

definition merge :: "obj \<Rightarrow> obj \<Rightarrow> obj" where
  "merge d row = fold (\<lambda>(k, v). obj_set k v) d row"

definition hasId :: "jsval \<Rightarrow> obj \<Rightarrow> bool" where
  "hasId ident row = (obj_get row ''documentId'' = ident \<or> obj_get row ''id'' = ident)"

definition mem_updateMany :: "string \<Rightarrow> jsval \<Rightarrow> obj list \<Rightarrow> jsval \<times> obj list" where
  "mem_updateMany uid params rows =
     (let ids = whereIds (js_get_opt params ''where'');
          hit = (\<lambda>row. obj_get row ''id'' \<in> set ids)
      in (JObj [(''count'', JNum (Fin (of_nat (length (filter hit rows)))))],
          map (\<lambda>row. if hit row then merge (dataOf params) row else row) rows))"

definition mem_findMany :: "string \<Rightarrow> jsval \<Rightarrow> obj list \<Rightarrow> jsval" where
  "mem_findMany uid params rows =
     JArr (map JObj
       (filter (\<lambda>row. obj_get row ''id'' \<in> set (whereIds (js_get_opt params ''filters''))) rows))"

definition mem_update :: "string \<Rightarrow> jsval \<Rightarrow> jsval \<Rightarrow> obj list \<Rightarrow> jsval \<times> obj list" where
  "mem_update uid ident params rows =
     (case find (hasId ident) rows of
        None \<Rightarrow> (JNull, rows)
      | Some row \<Rightarrow>
          (JObj (merge (dataOf params) row),
           map (\<lambda>r. if hasId ident r then merge (dataOf params) r else r) rows))"

definition mem_create :: "string \<Rightarrow> jsval \<Rightarrow> obj list \<Rightarrow> jsval \<times> obj list" where
  "mem_create uid params rows = (JObj (dataOf params), rows @ [dataOf params])"

definition mem_findOne :: "string \<Rightarrow> jsval \<Rightarrow> jsval \<Rightarrow> obj list \<Rightarrow> jsval" where
  "mem_findOne uid ident opts rows =
     (case find (hasId ident) rows of None \<Rightarrow> JNull | Some row \<Rightarrow> JObj row)"

definition mem_page :: "string \<Rightarrow> jsval \<Rightarrow> obj list \<Rightarrow> jsval" where
  "mem_page uid opts rows =
     (case (js_get_opt opts ''page'', js_get_opt opts ''pageSize'') of
        (JNum (Fin p), JNum (Fin n)) \<Rightarrow>
          JArr (map JObj (take (nat \<lfloor>n\<rfloor>) (drop (nat \<lfloor>(p - 1) * n\<rfloor>) rows)))
      | _ \<Rightarrow> JArr (map JObj rows))"

definition mem_count :: "string \<Rightarrow> jsval \<Rightarrow> obj list \<Rightarrow> jsval" where
  "mem_count uid opts rows = JNum (Fin (of_nat (length rows)))"

definition mem_validate :: "modelDef \<Rightarrow> obj \<Rightarrow> error + jsval" where
  "mem_validate model entity =
     (if obj_get entity ''title'' = JUndefined then Inl (ValidationError ''title must be defined.'')
      else Inr (JObj entity))"

definition mem_env :: "(obj list) env" where
  "mem_env =
     \<lparr> documents_findMany = mem_page,
       documents_count = mem_count,
       documents_findOne = mem_findOne,
       documents_create = mem_create,
       documents_update = mem_update,
       db_updateMany = mem_updateMany,
       entityService_findMany = mem_findMany,
       entityService_update = mem_update,
       validateEntityCreation = mem_validate,
       getModel = (\<lambda>uid. \<lparr> modelName = ''article'' \<rparr>),
       defaultSanitizeOutput = (\<lambda>model entity. entity),
       populate_builder = (\<lambda>uid countRelations. JObj []),
       isWebhooksPopulateRelationsEnabled = False,
       getDeepRelationsCount = (\<lambda>entity uid. entity),
       now = 1700000000000 \<rparr>"

text \<open>Rows and entries of the examples.\<close>

definition article :: "int \<Rightarrow> jsval \<Rightarrow> obj" where
  "article i published =
     [(''id'', JNum (Fin (of_int i))), (''title'', JStr ''t''),
      (PUBLISHED_AT_ATTRIBUTE, published)]"

definition documentRow :: "int \<Rightarrow> string \<Rightarrow> obj" where
  "documentRow i d =
     [(''id'', JNum (Fin (of_int i))), (''documentId'', JStr d), (''title'', JStr ''t'')]"

definition world0 :: "obj list \<Rightarrow> (obj list) world" where
  "world0 rows = \<lparr> store = rows, trace = [] \<rparr>"

definition rows12 :: "obj list" where
  "rows12 = map (\<lambda>i. [(''id'', JNum (Fin (of_int i)))]) [1, 2, 3, 4, 5, 6, 7, 8, 9, 10, 11, 12]"


section \<open>Lemmas on objects and lists\<close>

lemma obj_get_set: "obj_get (obj_set k v m) k' = (if k' = k then v else obj_get m k')"
  by (simp add: obj_get_def obj_set_def update_conv')

lemma obj_get_delete: "obj_get (obj_delete k m) k' = (if k' = k then JUndefined else obj_get m k')"
  by (simp add: obj_get_def obj_delete_def delete_conv')

lemma obj_get_remap:
  "obj_get (remap m) k =
     (if k = ''documentId'' then JUndefined
      else if k = ''id'' then obj_get m ''documentId''
      else if k = ''entryId'' then obj_get m ''id''
      else obj_get m k)"
  by (simp add: remap_def Let_def obj_get_set obj_get_delete)

lemma mapEntity_again: "mapEntity v = Inr v' \<Longrightarrow> mapEntity v' = Inr v'"
  by (cases v) (auto simp: obj_get_remap split: if_splits)

lemma mapEntity_defined: "v \<noteq> JNull \<Longrightarrow> v \<noteq> JUndefined \<Longrightarrow> \<exists>v'. mapEntity v = Inr v'"
  by (cases v) auto

lemma mapEach_total:
  "\<forall>x\<in>set xs. \<exists>y. f x = Inr y \<Longrightarrow> \<exists>ys. mapEach xs f = Inr ys"
  by (induction xs) (auto split: sum.splits)

lemma mapEach_Inr:
  "mapEach xs f = Inr ys \<Longrightarrow>
     length ys = length xs \<and> (\<forall>i<length xs. f (xs ! i) = Inr (ys ! i))"
proof (induction xs arbitrary: ys)
  case Nil
  then show ?case by simp
next
  case (Cons x xs)
  then show ?case
    by (auto split: sum.splits simp: nth_Cons split: nat.splits)
qed

text \<open>The unfolding of the examples.\<close>

lemmas example_defs =
  article_def documentRow_def world0_def mem_env_def mem_updateMany_def mem_findMany_def
  mem_update_def mem_create_def mem_findOne_def mem_page_def mem_count_def mem_validate_def
  whereIds_def dataOf_def merge_def hasId_def PUBLISHED_AT_ATTRIBUTE_def
  obj_get_def obj_set_def obj_delete_def remap_def rows12_def

section \<open>Rounding and the ceiling of a quotient\<close>

lemma binade_up_bounds: "1 \<le> a \<Longrightarrow> 2 ^ binade_up a \<le> a \<and> a < 2 ^ Suc (binade_up a)"
proof (induction a rule: binade_up.induct)
  case (1 a)
  show ?case
  proof (cases "a < 2")
    case True
    then show ?thesis using "1.prems" by (simp add: binade_up.simps [of a])
  next
    case False
    then have "1 \<le> a / 2" by simp
    with "1.IH" False
    have "2 ^ binade_up (a / 2) \<le> a / 2 \<and> a / 2 < 2 ^ Suc (binade_up (a / 2))"
      by simp
    then show ?thesis using False by (simp add: binade_up.simps [of a])
  qed
qed

lemma binade_down_bounds:
  "0 < a \<Longrightarrow> a < 1 \<Longrightarrow> 1 \<le> a * 2 ^ binade_down a \<and> a * 2 ^ binade_down a < 2"
proof (induction a rule: binade_down.induct)
  case (1 a)
  show ?case
  proof (cases "a * 2 < 1")
    case True
    with "1.IH" "1.prems"
    have "1 \<le> a * 2 * 2 ^ binade_down (a * 2) \<and> a * 2 * 2 ^ binade_down (a * 2) < 2"
      by simp
    then show ?thesis using "1.prems" by (simp add: binade_down.simps [of a] mult.assoc)
  next
    case False
    then have "binade_down (a * 2) = 0" by (simp add: binade_down.simps [of "a * 2"])
    then show ?thesis using "1.prems" False by (simp add: binade_down.simps [of a])
  qed
qed

lemma roundHalfEven_near:
  "q - 1 / 2 \<le> of_int (roundHalfEven q) \<and> of_int (roundHalfEven q) \<le> q + 1 / 2"
proof -
  have f: "of_int \<lfloor>q\<rfloor> \<le> q" "q < of_int \<lfloor>q\<rfloor> + 1" by linarith+
  consider (low) "roundHalfEven q = \<lfloor>q\<rfloor>" "q - of_int \<lfloor>q\<rfloor> \<le> 1 / 2"
    | (high) "roundHalfEven q = \<lfloor>q\<rfloor> + 1" "1 / 2 \<le> q - of_int \<lfloor>q\<rfloor>"
    unfolding roundHalfEven_def Let_def
    by (cases "q - of_int \<lfloor>q\<rfloor> < 1 / 2"; cases "1 / 2 < q - of_int \<lfloor>q\<rfloor>";
        cases "even \<lfloor>q\<rfloor>") auto
  then show ?thesis
  proof cases
    case low
    have "q - 1 / 2 \<le> of_int \<lfloor>q\<rfloor>" "of_int \<lfloor>q\<rfloor> \<le> q + 1 / 2"
      using f low(2) by linarith+
    then show ?thesis by (simp only: low(1))
  next
    case high
    have "q - 1 / 2 \<le> of_int \<lfloor>q\<rfloor> + 1" "of_int \<lfloor>q\<rfloor> + 1 \<le> q + 1 / 2"
      using f high(2) by linarith+
    then show ?thesis by (simp only: high(1)) simp
  qed
qed

lemma roundHalfEven_le: "q \<le> of_int N \<Longrightarrow> roundHalfEven q \<le> N"
proof -
  assume le: "q \<le> of_int N"
  show ?thesis
  proof (cases "q = of_int N")
    case True
    then show ?thesis by (simp add: roundHalfEven_def)
  next
    case False
    then have "q < of_int N" using le by simp
    then have "\<lfloor>q\<rfloor> < N" by (simp add: floor_less_iff)
    then show ?thesis by (simp add: roundHalfEven_def Let_def)
  qed
qed

text \<open>
  Rounding on a grid of step \<open>1 / M\<close> that contains the integers: a number between
  the integers \<open>k\<close> and \<open>k + 1\<close>, more than half a step above \<open>k\<close>, stays above \<open>k\<close>
  and does not pass \<open>k + 1\<close>.
\<close>

lemma rounded_between:
  fixes x M :: rat
  assumes k: "of_int k < x" "x \<le> of_int k + 1"
    and M: "M = of_int N" "0 < N"
    and far: "1 / 2 < (x - of_int k) * M"
  shows "of_int k < of_int (roundHalfEven (x * M)) / M \<and>
         of_int (roundHalfEven (x * M)) / M \<le> of_int k + 1"
proof -
  have Mpos: "0 < M" using M by simp
  have "x * M \<le> of_int ((k + 1) * N)"
    using k(2) Mpos M(1) by (simp add: mult_right_mono)
  then have up: "roundHalfEven (x * M) \<le> (k + 1) * N" by (rule roundHalfEven_le)
  have "x * M - 1 / 2 \<le> of_int (roundHalfEven (x * M))"
    using roundHalfEven_near [of "x * M"] by simp
  moreover have "of_int k * M < x * M - 1 / 2" using far by (simp add: algebra_simps)
  ultimately have lo: "of_int k * M < of_int (roundHalfEven (x * M))" by simp
  have "of_int (roundHalfEven (x * M)) \<le> (of_int k + 1) * M"
  proof -
    have "(of_int (roundHalfEven (x * M)) :: rat) \<le> of_int ((k + 1) * N)"
      using up by (simp only: of_int_le_iff)
    then show ?thesis using M(1) by simp
  qed
  then show ?thesis using lo Mpos by (simp add: pos_less_divide_eq pos_divide_le_eq)
qed

lemma ulp_grid_ge1:
  fixes a :: rat
  assumes "1 \<le> a" "a < 2 ^ 53"
  shows "\<exists>m. ulp a = 1 / 2 ^ m \<and> a < 2 ^ (53 - m) \<and> m \<le> 52 \<and> 2 ^ (52 - m) \<le> a"
proof -
  have b: "2 ^ binade_up a \<le> a" "a < 2 ^ Suc (binade_up a)"
    using binade_up_bounds [OF assms(1)] by auto
  have "(2::rat) ^ binade_up a < 2 ^ 53" using b(1) assms(2) by simp
  then have e: "binade_up a < 53" by (simp only: power_strict_increasing_iff)
  then have e52: "binade_up a \<le> 52" by simp
  have "ulp a = 2 ^ binade_up a / 2 ^ 52" using assms(1) by (simp add: ulp_def)
  also have "\<dots> = 1 / 2 ^ (52 - binade_up a)"
    using e52 by (simp add: power_diff)
  finally have "ulp a = 1 / 2 ^ (52 - binade_up a)" .
  moreover have "53 - (52 - binade_up a) = Suc (binade_up a)" using e52 by simp
  moreover have "52 - (52 - binade_up a) = binade_up a" using e52 by simp
  ultimately show ?thesis using b by (intro exI [of _ "52 - binade_up a"]) simp
qed

lemma ulp_grid_lt1:
  fixes a :: rat
  assumes "0 < a" "a < 1" "1 / 2 ^ 53 \<le> a"
  shows "\<exists>m. ulp a = 1 / 2 ^ m \<and> 2 ^ 52 \<le> a * 2 ^ m"
proof -
  have b: "1 \<le> a * 2 ^ binade_down a" "a * 2 ^ binade_down a < 2"
    using binade_down_bounds [OF assms(1,2)] by auto
  have "1 \<le> a * 2 ^ 53" using assms(3) by (simp add: pos_divide_le_eq)
  have "(2::rat) ^ binade_down a < 2 ^ 54"
  proof (rule ccontr)
    assume "\<not> (2::rat) ^ binade_down a < 2 ^ 54"
    then have "(2::rat) ^ 54 \<le> 2 ^ binade_down a" by simp
    then have "a * 2 ^ 54 \<le> a * 2 ^ binade_down a"
      using assms(1) by (simp only: mult_le_cancel_left_pos)
    moreover have "2 \<le> a * 2 ^ 54" using \<open>1 \<le> a * 2 ^ 53\<close> by simp
    ultimately show False using b(2) by simp
  qed
  then have "binade_down a < 54" by (simp only: power_strict_increasing_iff)
  then have "min (binade_down a) 1022 = binade_down a" by simp
  then have "ulp a = 1 / 2 ^ (binade_down a + 52)" using assms(2) by (simp add: ulp_def)
  moreover have "2 ^ 52 \<le> a * 2 ^ (binade_down a + 52)"
    using b(1) by (simp add: power_add)
  ultimately show ?thesis by blast
qed

lemma roundToDouble_ceiling:
  fixes x :: rat
  assumes x: "0 < x" and k: "of_int k < x" "x \<le> of_int k + 1" "k < 2 ^ 53"
    and grid: "ulp x = 1 / 2 ^ m" and far: "1 / 2 < (x - of_int k) * 2 ^ m"
  shows "js_ceil (roundToDouble x) = Fin (of_int (k + 1))"
proof -
  define y where "y = of_int (roundHalfEven (x * 2 ^ m)) / (2 ^ m :: rat)"
  have "(2 ^ m :: rat) = of_int (2 ^ m)" by simp
  then have y: "of_int k < y \<and> y \<le> of_int k + 1"
    unfolding y_def using rounded_between [OF k(1,2) _ _ far, of "2 ^ m"] by simp
  have "y \<le> 2 ^ 53"
  proof -
    have "(of_int k :: rat) + 1 \<le> 2 ^ 53"
    proof -
      have "k + 1 \<le> 2 ^ 53" using k(3) by simp
      then have "(of_int (k + 1) :: rat) \<le> of_int (2 ^ 53)" by (simp only: of_int_le_iff)
      then show ?thesis by simp
    qed
    then show ?thesis using y by simp
  qed
  also have "(2 ^ 53 :: rat) < 2 ^ 1024" by simp
  finally have small: "\<not> 2 ^ 1024 \<le> y" by simp
  have "roundToDouble x = Fin y"
    using x small unfolding roundToDouble_def y_def by (simp add: grid Let_def)
  moreover have "\<lceil>y\<rceil> = k + 1" using y by (simp add: ceiling_eq_iff)
  ultimately show ?thesis by simp
qed

text \<open>
  For integers in the safe range the rounding of the quotient does not show in its
  ceiling: \<open>Math.ceil(t / s)\<close> is the ceiling of the exact quotient.
\<close>

lemma js_ceil_div_safe:
  fixes t s :: int
  assumes "0 \<le> t" "t < 2 ^ 53" "0 < s" "s < 2 ^ 53"
  shows "js_ceil (js_div (Fin (of_int t)) (Fin (of_int s))) =
         Fin (of_int \<lceil>(of_int t :: rat) / of_int s\<rceil>)"
proof (cases "t = 0")
  case True
  then show ?thesis using assms(3) by (simp add: roundToDouble_def)
next
  case False
  define x :: rat where "x = of_int t / of_int s"
  define k where "k = \<lceil>x\<rceil> - 1"
  have tpos: "0 < t" using False assms(1) by simp
  have spos: "(0::rat) < of_int s" using assms(3) by simp
  have xpos: "0 < x" using tpos spos by (simp add: x_def)
  have k: "of_int k < x" "x \<le> of_int k + 1" unfolding k_def by linarith+
  have xt: "x \<le> of_int t"
  proof -
    have "(1::rat) \<le> of_int s" using assms(3) by simp
    then have "(of_int t :: rat) / of_int s \<le> of_int t / 1"
      using tpos by (intro divide_left_mono) simp_all
    then show ?thesis by (simp add: x_def)
  qed
  have tb: "(of_int t :: rat) < 2 ^ 53"
  proof -
    have "(of_int t :: rat) < of_int (2 ^ 53)" using assms(2) by (simp only: of_int_less_iff)
    then show ?thesis by simp
  qed
  have sb: "(of_int s :: rat) < 2 ^ 53"
  proof -
    have "(of_int s :: rat) < of_int (2 ^ 53)" using assms(4) by (simp only: of_int_less_iff)
    then show ?thesis by simp
  qed
  have kb: "k < 2 ^ 53"
  proof -
    have "(of_int k :: rat) < of_int (2 ^ 53)" using k(1) xt tb by simp
    then show ?thesis by (simp only: of_int_less_iff)
  qed
  have step: "1 / of_int s \<le> x - of_int k"
  proof -
    have "(of_int (k * s) :: rat) < of_int t"
      using k(1) spos by (simp add: x_def pos_less_divide_eq)
    then have "k * s < t" by (simp only: of_int_less_iff)
    then have "1 \<le> t - k * s" by simp
    then have "(of_int 1 :: rat) \<le> of_int (t - k * s)" by (simp only: of_int_le_iff)
    then have "(1::rat) \<le> of_int t - of_int k * of_int s" by simp
    then have "1 / of_int s \<le> (of_int t - of_int k * of_int s) / (of_int s :: rat)"
      using spos by (simp only: divide_le_cancel) simp
    also have "\<dots> = x - of_int k" using spos by (simp add: x_def diff_divide_distrib)
    finally show ?thesis .
  qed
  have "\<exists>m. ulp x = 1 / 2 ^ m \<and> 1 / 2 < (x - of_int k) * 2 ^ m"
  proof (cases "1 \<le> x")
    case True
    have "x < 2 ^ 53" using xt tb by simp
    from ulp_grid_ge1 [OF True this] obtain m
      where m: "ulp x = 1 / 2 ^ m" "m \<le> 52" "2 ^ (52 - m) \<le> x" by blast
    have "of_int s * 2 ^ (52 - m) \<le> (of_int t :: rat)"
      using m(3) spos by (simp add: x_def pos_le_divide_eq mult.commute)
    then have "of_int s * 2 ^ (52 - m) < (2 ^ 53 :: rat)" using tb by simp
    also have "(2 ^ 53 :: rat) = 2 ^ (m + 1) * 2 ^ (52 - m)"
      using m(2) by (simp add: power_add [symmetric])
    finally have "(of_int s :: rat) < 2 ^ (m + 1)" by simp
    then have "of_int s / 2 < (2 ^ m :: rat)" by simp
    then have "1 / 2 < (1 / of_int s) * (2 ^ m :: rat)"
      using spos by (simp add: pos_less_divide_eq mult.commute)
    also have "\<dots> \<le> (x - of_int k) * 2 ^ m"
      using step by (simp only: mult_le_cancel_right) simp
    finally show ?thesis using m(1) by blast
  next
    case False
    then have x1: "x < 1" by simp
    then have k0: "k = 0" unfolding k_def using xpos by (simp add: ceiling_eq_iff)
    have "1 / 2 ^ 53 \<le> 1 / (of_int s :: rat)"
      using sb spos by (intro divide_left_mono) simp_all
    also have "\<dots> \<le> x" using step k0 by simp
    finally have "1 / 2 ^ 53 \<le> x" .
    from ulp_grid_lt1 [OF xpos x1 this] obtain m
      where m: "ulp x = 1 / 2 ^ m" "2 ^ 52 \<le> x * 2 ^ m" by blast
    have "(1 / 2 :: rat) < 2 ^ 52" by simp
    then have "1 / 2 < (x - of_int k) * 2 ^ m" using m(2) k0 by simp
    then show ?thesis using m(1) by blast
  qed
  then obtain m where m: "ulp x = 1 / 2 ^ m" "1 / 2 < (x - of_int k) * 2 ^ m" by blast
  have "js_ceil (roundToDouble x) = Fin (of_int (k + 1))"
    by (rule roundToDouble_ceiling [OF xpos k kb m])
  moreover have "k + 1 = \<lceil>x\<rceil>" by (simp add: k_def)
  moreover have "js_div (Fin (of_int t)) (Fin (of_int s)) = roundToDouble x"
    using assms(3) by (simp add: x_def)
  ultimately show ?thesis by (simp add: x_def)
qed

lemma roundHalfEven_ge: "of_int N \<le> q \<Longrightarrow> N \<le> roundHalfEven q"
proof -
  assume "of_int N \<le> q"
  then have "N \<le> \<lfloor>q\<rfloor>" by (simp add: le_floor_iff)
  then show ?thesis by (simp add: roundHalfEven_def Let_def)
qed

text \<open>A quotient of \<open>2 ^ 1024\<close> or more overflows.\<close>

lemma roundToDouble_overflow:
  assumes "2 ^ 1024 \<le> x"
  shows "roundToDouble x = PosInf"
proof -
  have x1: "1 \<le> x"
  proof -
    have "(1::rat) \<le> 2 ^ 1024" by simp
    then show ?thesis using assms by (rule order_trans)
  qed
  then have xpos: "0 < x" by simp
  have b: "2 ^ binade_up x \<le> x" "x < 2 ^ Suc (binade_up x)"
    using binade_up_bounds [OF x1] by auto
  have "(2::rat) ^ 1024 < 2 ^ Suc (binade_up x)" using assms b(2) by (rule le_less_trans)
  then have "1024 < Suc (binade_up x)" by (simp only: power_strict_increasing_iff)
  then have e: "1024 \<le> binade_up x" by simp
  define u :: rat where "u = 2 ^ binade_up x / 2 ^ 52"
  have upos: "0 < u" by (simp add: u_def)
  have u: "ulp x = u" using x1 by (simp add: ulp_def u_def)
  have "(2 ^ 52 :: rat) * u \<le> x" using b(1) by (simp add: u_def)
  then have "of_int (2 ^ 52) \<le> x / u" using upos by (simp add: pos_le_divide_eq)
  then have "2 ^ 52 \<le> roundHalfEven (x / u)" by (rule roundHalfEven_ge)
  then have "(of_int (2 ^ 52) :: rat) \<le> of_int (roundHalfEven (x / u))"
    by (simp only: of_int_le_iff)
  then have "2 ^ 52 * u \<le> of_int (roundHalfEven (x / u)) * u"
    using upos by (simp only: mult_le_cancel_right) simp
  moreover have "(2 ^ 52 :: rat) * u = 2 ^ binade_up x" by (simp add: u_def)
  moreover have "(2 ^ 1024 :: rat) \<le> 2 ^ binade_up x"
    using e by (simp only: power_increasing_iff) 
  ultimately have "2 ^ 1024 \<le> of_int (roundHalfEven (x / u)) * u" by simp
  then show ?thesis using xpos by (simp add: roundToDouble_def Let_def u)
qed

subsection \<open>Evaluation on numerals\<close>

lemma floor_rat_numeral:
  "\<lfloor>(numeral a :: rat) / numeral b\<rfloor> = numeral a div numeral b"
  "\<lfloor>- (numeral a :: rat) / numeral b\<rfloor> = - numeral a div numeral b"
  using floor_divide_of_int_eq [of "numeral a" "numeral b", where ?'a = rat]
        floor_divide_of_int_eq [of "- numeral a" "numeral b", where ?'a = rat]
  by simp_all

lemma ceiling_rat_numeral:
  "\<lceil>(numeral a :: rat) / numeral b\<rceil> = - (- numeral a div numeral b)"
proof -
  have "\<lceil>(numeral a :: rat) / numeral b\<rceil> = - \<lfloor>- (numeral a :: rat) / numeral b\<rfloor>"
    by (simp add: ceiling_def)
  then show ?thesis by (simp only: floor_rat_numeral(2))
qed

lemma binade_up_unfold:
  "binade_up (numeral n) =
     (if (numeral n :: rat) < 2 then 0 else Suc (binade_up (numeral n / 2)))"
  "binade_up (numeral n / numeral m) =
     (if (numeral n / numeral m :: rat) < 2 then 0
      else Suc (binade_up (numeral n / numeral m / 2)))"
  "binade_up 1 = 0"
  by (rule binade_up.simps, rule binade_up.simps, simp add: binade_up.simps)

lemma binade_down_unfold:
  "binade_down (numeral n / numeral m) =
     (if (numeral n / numeral m :: rat) \<le> 0 \<or> 1 \<le> (numeral n / numeral m :: rat) then 0
      else Suc (binade_down (numeral n / numeral m * 2)))"
  "binade_down (1 / numeral m) =
     (if (1 / numeral m :: rat) \<le> 0 \<or> 1 \<le> (1 / numeral m :: rat) then 0
      else Suc (binade_down (1 / numeral m * 2)))"
  by (rule binade_down.simps)+

lemmas round_eval = roundToDouble_def ulp_def roundHalfEven_def Let_def
  binade_up_unfold binade_down_unfold floor_rat_numeral ceiling_rat_numeral

lemmas parse_eval = StringToNumber_def trimString_def isStrWhiteSpaceChar_def digitValue_def
  isDigitOf_def isDigits_def digitsValue_def nonDecimalIntegerLiteral_def exponentPart_def
  pow10_def strUnsignedDecimalLiteral_def

text \<open>
  Outside the integers the rounding shows. \<open>0.7\<close> is the double
  \<open>3152519739159347 / 2 ^ 52\<close>: \<open>7 / 0.7\<close> is 10 and \<open>21 / 0.7\<close> is above 30. The
  quotient of \<open>1e17\<close> by 3 is even. A quotient by the least positive double overflows.
\<close>

lemma roundToDouble_examples:
  "roundToDouble (7 / 10) = Fin (3152519739159347 / 4503599627370496)"
  "js_ceil (js_div (Fin 7) (Fin (3152519739159347 / 4503599627370496))) = Fin 10"
  "js_ceil (js_div (Fin 21) (Fin (3152519739159347 / 4503599627370496))) = Fin 31"
  "js_div (Fin 100000000000000000) (Fin 3) = Fin 33333333333333332"
  "js_div (Fin 1) (Fin 3) = Fin (6004799503160661 / 18014398509481984)"
  "roundToDouble 9007199254740993 = Fin 9007199254740992"
  by (simp_all add: round_eval)

lemma js_div_overflow_example: "js_div (Fin 12) (Fin (1 / 2 ^ 1074)) = PosInf"
proof -
  have "(2 ^ 1024 :: rat) \<le> 12 / (1 / 2 ^ 1074)" by simp
  then have "roundToDouble (12 / (1 / 2 ^ 1074)) = PosInf" by (rule roundToDouble_overflow)
  then show ?thesis by simp
qed

lemma StringToNumber_examples:
  "StringToNumber ''3'' = Fin 3"
  "StringToNumber '' 12 '' = Fin 12"
  "StringToNumber [] = Fin 0"
  "StringToNumber ''abc'' = NaN"
  "StringToNumber ''12px'' = NaN"
  "StringToNumber ''0x1F'' = Fin 31"
  "StringToNumber ''-5.5'' = Fin (- (11 / 2))"
  "StringToNumber ''1e3'' = Fin 1000"
  "StringToNumber ''0.7'' = Fin (3152519739159347 / 4503599627370496)"
  "StringToNumber ''-Infinity'' = NegInf"
  "StringToNumber ''9007199254740993'' = Fin 9007199254740992"
  by (simp_all add: parse_eval round_eval)

lemma Number_js_examples:
  "Number_js (JStr ''5'') = Inr (Fin 5)"
  "Number_js (JArr []) = Inr (Fin 0)"
  "Number_js (JArr [JStr ''7'']) = Inr (Fin 7)"
  "Number_js (JArr [JNum (Fin 1), JNum (Fin 2)]) = Inr NaN"
  "Number_js (JObj []) = Inr NaN"
  "Number_js (JObj [(''toString'', JStr ''1'')]) = Inl TypeError"
  by (simp_all add: parse_eval round_eval)

section \<open>Identifier remapping is idempotent and keeps the order\<close>

text \<open>
  Claim C7. \<open>mapEntity\<close> returns an entry without a \<open>documentId\<close> field unchanged, and
  what it returns is a fixed point: remapping it again changes nothing. On a list
  response, an object whose \<open>results\<close> is a list of entries, \<open>mapEntitiesResponse\<close>
  returns the response with \<open>results\<close> replaced by a list of the same length whose
  \<open>i\<close>-th element is the remapping of the \<open>i\<close>-th entry, and every other property, the
  pagination among them, is what it was.
\<close>

theorem mapEntity_idempotent_order_preserving:
  "(obj_get m ''documentId'' = JUndefined \<longrightarrow> mapEntity (JObj m) = Inr (JObj m)) \<and>
   (mapEntity v = Inr v' \<longrightarrow> mapEntity v' = Inr v') \<and>
   (obj_get r ''results'' = JArr es \<and> (\<forall>e\<in>set es. e \<noteq> JNull \<and> e \<noteq> JUndefined) \<longrightarrow>
      (\<exists>es'. mapEntitiesResponse (JObj r) = Inr (JObj (obj_set ''results'' (JArr es') r)) \<and>
             length es' = length es \<and>
             (\<forall>i<length es. mapEntity (es ! i) = Inr (es' ! i)) \<and>
             (\<forall>k. k \<noteq> ''results'' \<longrightarrow>
                  obj_get (obj_set ''results'' (JArr es') r) k = obj_get r k)))"
proof (intro conjI impI)
  assume "obj_get m ''documentId'' = JUndefined"
  then show "mapEntity (JObj m) = Inr (JObj m)" by simp
next
  assume "mapEntity v = Inr v'"
  then show "mapEntity v' = Inr v'" by (rule mapEntity_again)
next
  assume a: "obj_get r ''results'' = JArr es \<and> (\<forall>e\<in>set es. e \<noteq> JNull \<and> e \<noteq> JUndefined)"
  then have "\<forall>e\<in>set es. \<exists>y. mapEntity e = Inr y"
    using mapEntity_defined by blast
  then obtain es' where es': "mapEach es mapEntity = Inr es'"
    using mapEach_total by blast
  have "mapEntitiesResponse (JObj r) = Inr (JObj (obj_set ''results'' (JArr es') r))"
    using a es' by (simp add: mapAsync_def)
  moreover have "length es' = length es \<and> (\<forall>i<length es. mapEntity (es ! i) = Inr (es' ! i))"
    using mapEach_Inr [OF es'] .
  moreover have "\<forall>k. k \<noteq> ''results'' \<longrightarrow>
      obj_get (obj_set ''results'' (JArr es') r) k = obj_get r k"
    by (simp add: obj_get_set)
  ultimately show
    "\<exists>es'. mapEntitiesResponse (JObj r) = Inr (JObj (obj_set ''results'' (JArr es') r)) \<and>
           length es' = length es \<and>
           (\<forall>i<length es. mapEntity (es ! i) = Inr (es' ! i)) \<and>
           (\<forall>k. k \<noteq> ''results'' \<longrightarrow>
                obj_get (obj_set ''results'' (JArr es') r) k = obj_get r k)"
    by blast
qed

text \<open>
  A response of two entries, the first with a \<open>documentId\<close>: the first is remapped, the
  second and the pagination are untouched, the order is kept.
\<close>

theorem mapEntity_idempotent_order_preserving_witness:
  "mapEntity (JObj (article 2 JNull)) = Inr (JObj (article 2 JNull)) \<and>
   mapEntity (JObj (documentRow 1 ''d1'')) =
     Inr (JObj [(''id'', JStr ''d1''), (''title'', JStr ''t''), (''entryId'', JNum (Fin 1))]) \<and>
   mapEntity (JObj [(''id'', JStr ''d1''), (''title'', JStr ''t''), (''entryId'', JNum (Fin 1))]) =
     Inr (JObj [(''id'', JStr ''d1''), (''title'', JStr ''t''), (''entryId'', JNum (Fin 1))]) \<and>
   mapEntitiesResponse
     (JObj [(''results'', JArr [JObj (documentRow 1 ''d1''), JObj (article 2 JNull)]),
            (''pagination'', JObj [(''page'', JNum (Fin 1))])]) =
     Inr (JObj [(''results'',
                 JArr [JObj [(''id'', JStr ''d1''), (''title'', JStr ''t''),
                             (''entryId'', JNum (Fin 1))],
                       JObj (article 2 JNull)]),
                (''pagination'', JObj [(''page'', JNum (Fin 1))])])"
  using mapEntity_idempotent_order_preserving
    [where m = "article 2 JNull" and v = "JObj (documentRow 1 ''d1'')"
       and v' = "JObj [(''id'', JStr ''d1''), (''title'', JStr ''t''), (''entryId'', JNum (Fin 1))]"
       and r = "[(''results'', JArr [JObj (documentRow 1 ''d1''), JObj (article 2 JNull)]),
                 (''pagination'', JObj [(''page'', JNum (Fin 1))])]"
       and es = "[JObj (documentRow 1 ''d1''), JObj (article 2 JNull)]"]
  by (simp add: mapAsync_def example_defs)

section \<open>A created entry is a draft\<close>

lemma snd_create:
  "snd (create env body uid w) =
     \<lparr> store = snd (documents_create env uid
          (JObj [(''data'', JObj (obj_set PUBLISHED_AT_ATTRIBUTE JNull body)),
                 (''populate'',
                  populate_builder env uid (\<not> isWebhooksPopulateRelationsEnabled env))])
          (store w)),
       trace = trace w @ [BuildDeepPopulate uid,
         DocumentsCreate uid
          (JObj [(''data'', JObj (obj_set PUBLISHED_AT_ATTRIBUTE JNull body)),
                 (''populate'',
                  populate_builder env uid (\<not> isWebhooksPopulateRelationsEnabled env))])] \<rparr>"
  by (simp add: create_def buildDeepPopulate_def issue_def Let_def split: prod.splits sum.splits)

lemma create_same_patch:
  "obj_set PUBLISHED_AT_ATTRIBUTE JNull body' = obj_set PUBLISHED_AT_ATTRIBUTE JNull body
   \<Longrightarrow> create env body' uid w = create env body uid w"
  by (simp add: create_def Let_def split: prod.splits sum.splits)

text \<open>
  Claim C4. \<open>create\<close> builds the populate specification and then issues one write, the
  \<open>create\<close> of the document service, whose data is the body with \<open>publishedAt\<close> set to
  \<open>null\<close> and every other property as the caller gave it. A \<open>publishedAt\<close> that the
  caller supplies has no influence at all: the call with it does what the call without it
  does.
\<close>

theorem create_forces_draft:
  "(let data = obj_set PUBLISHED_AT_ATTRIBUTE JNull body;
        params = JObj [(''data'', JObj data),
                       (''populate'',
                        populate_builder env uid (\<not> isWebhooksPopulateRelationsEnabled env))]
    in trace (snd (create env body uid w)) =
         trace w @ [BuildDeepPopulate uid, DocumentsCreate uid params] \<and>
       store (snd (create env body uid w)) = snd (documents_create env uid params (store w)) \<and>
       obj_get data PUBLISHED_AT_ATTRIBUTE = JNull \<and>
       (\<forall>k. k \<noteq> PUBLISHED_AT_ATTRIBUTE \<longrightarrow> obj_get data k = obj_get body k)) \<and>
   create env (obj_set PUBLISHED_AT_ATTRIBUTE v body) uid w = create env body uid w"
proof -
  have "obj_set PUBLISHED_AT_ATTRIBUTE JNull (obj_set PUBLISHED_AT_ATTRIBUTE v body)
        = obj_set PUBLISHED_AT_ATTRIBUTE JNull body"
    by (simp add: obj_set_def)
  then have "create env (obj_set PUBLISHED_AT_ATTRIBUTE v body) uid w = create env body uid w"
    by (rule create_same_patch)
  then show ?thesis
    by (simp add: snd_create Let_def obj_get_set)
qed

text \<open>A body that asks for a publication date is stored as a draft.\<close>

theorem create_forces_draft_witness:
  "create mem_env [(''title'', JStr ''a''), (''publishedAt'', JDate 7)] ''api::article.article''
     (world0 []) =
   (Inr (JObj [(''title'', JStr ''a''), (''publishedAt'', JNull)]),
    \<lparr> store = [[(''title'', JStr ''a''), (''publishedAt'', JNull)]],
      trace = [BuildDeepPopulate ''api::article.article'',
               DocumentsCreate ''api::article.article''
                 (JObj [(''data'', JObj [(''title'', JStr ''a''), (''publishedAt'', JNull)]),
                        (''populate'', JObj [])])] \<rparr>)"
  using create_forces_draft
    [where env = mem_env and body = "[(''title'', JStr ''a''), (''publishedAt'', JDate 7)]"
       and uid = "''api::article.article''" and w = "world0 []" and v = "JDate 7"]
  by (simp add: create_def buildDeepPopulate_def issue_def relationsCountIfEnabled_def Let_def
      example_defs)

section \<open>An update cannot change the status\<close>

lemma strip_filter:
  "obj_delete ''id'' (omitPublishedAtField body) =
     filter (\<lambda>(k, v). k \<noteq> ''id'' \<and> k \<noteq> PUBLISHED_AT_ATTRIBUTE) body"
  by (induction body) (auto simp: omitPublishedAtField_def obj_delete_def)

lemma snd_update:
  "snd (update env document body uid w) =
     \<lparr> store = snd (documents_update env uid (obj_get document ''id'')
          (JObj [(''data'', JObj (obj_delete ''id'' (omitPublishedAtField body))),
                 (''populate'',
                  populate_builder env uid (\<not> isWebhooksPopulateRelationsEnabled env))])
          (store w)),
       trace = trace w @ [BuildDeepPopulate uid,
         DocumentsUpdate uid (obj_get document ''id'')
          (JObj [(''data'', JObj (obj_delete ''id'' (omitPublishedAtField body))),
                 (''populate'',
                  populate_builder env uid (\<not> isWebhooksPopulateRelationsEnabled env))])] \<rparr>"
  by (simp add: update_def buildDeepPopulate_def issue_def Let_def split: prod.splits sum.splits)

lemma update_same_patch:
  "omitPublishedAtField body' = omitPublishedAtField body
   \<Longrightarrow> update env document body' uid w = update env document body uid w"
  by (simp add: update_def Let_def split: prod.splits sum.splits)

text \<open>
  Claim C8. \<open>update\<close> issues one write, the \<open>update\<close> of the document service on the
  identifier of the entry, whose data is the body without its \<open>id\<close> and without its
  \<open>publishedAt\<close> property, every other property kept in place. So the patch cannot set
  the status: whatever \<open>publishedAt\<close> the caller puts into the body, the call does what
  it does without it.
\<close>

theorem update_strips_status_fields:
  "(let data = filter (\<lambda>(k, v). k \<noteq> ''id'' \<and> k \<noteq> PUBLISHED_AT_ATTRIBUTE) body;
        params = JObj [(''data'', JObj data),
                       (''populate'',
                        populate_builder env uid (\<not> isWebhooksPopulateRelationsEnabled env))]
    in trace (snd (update env document body uid w)) =
         trace w @ [BuildDeepPopulate uid, DocumentsUpdate uid (obj_get document ''id'') params] \<and>
       store (snd (update env document body uid w)) =
         snd (documents_update env uid (obj_get document ''id'') params (store w)) \<and>
       obj_get data PUBLISHED_AT_ATTRIBUTE = JUndefined \<and>
       obj_get data ''id'' = JUndefined \<and>
       (\<forall>k. k \<noteq> PUBLISHED_AT_ATTRIBUTE \<and> k \<noteq> ''id'' \<longrightarrow> obj_get data k = obj_get body k)) \<and>
   update env document (obj_set PUBLISHED_AT_ATTRIBUTE v body) uid w =
     update env document body uid w"
proof -
  have "omitPublishedAtField (obj_set PUBLISHED_AT_ATTRIBUTE v body) = omitPublishedAtField body"
    by (simp add: omitPublishedAtField_def obj_delete_def obj_set_def delete_update_same)
  then have same: "update env document (obj_set PUBLISHED_AT_ATTRIBUTE v body) uid w
      = update env document body uid w"
    by (rule update_same_patch)
  have get: "obj_get (obj_delete ''id'' (omitPublishedAtField body)) k =
      (if k = ''id'' \<or> k = PUBLISHED_AT_ATTRIBUTE then JUndefined else obj_get body k)" for k
    by (simp add: omitPublishedAtField_def obj_get_delete)
  show ?thesis
    using same get by (simp add: snd_update Let_def flip: strip_filter)
qed

text \<open>
  A patch that carries another identifier and \<open>publishedAt = null\<close>, applied to a
  published entry of the store in memory: the title changes, the entry stays published
  and keeps its identifier.
\<close>

theorem update_strips_status_fields_witness:
  "update mem_env (article 1 (JDate 5))
     [(''id'', JNum (Fin 99)), (''title'', JStr ''x''), (''publishedAt'', JNull)]
     ''api::article.article'' (world0 [article 1 (JDate 5)]) =
   (Inr (JObj [(''id'', JNum (Fin 1)), (''title'', JStr ''x''), (''publishedAt'', JDate 5)]),
    \<lparr> store = [[(''id'', JNum (Fin 1)), (''title'', JStr ''x''), (''publishedAt'', JDate 5)]],
      trace = [BuildDeepPopulate ''api::article.article'',
               DocumentsUpdate ''api::article.article'' (JNum (Fin 1))
                 (JObj [(''data'', JObj [(''title'', JStr ''x'')]), (''populate'', JObj [])])] \<rparr>)"
  using update_strips_status_fields
    [where env = mem_env and document = "article 1 (JDate 5)"
       and body = "[(''id'', JNum (Fin 99)), (''title'', JStr ''x''), (''publishedAt'', JNull)]"
       and uid = "''api::article.article''" and w = "world0 [article 1 (JDate 5)]" and v = JNull]
  by (simp add: update_def omitPublishedAtField_def buildDeepPopulate_def issue_def
      relationsCountIfEnabled_def Let_def example_defs)

section \<open>Unpublishing one entry\<close>

lemma mapEntity_error: "mapEntity v = Inl e \<Longrightarrow> e = TypeError"
  by (cases v) (auto split: if_splits)

lemma typed_truthy:
  "publishedAt_typed entity \<Longrightarrow>
     ToBoolean (obj_get entity PUBLISHED_AT_ATTRIBUTE) =
       (\<not> is_null (obj_get entity PUBLISHED_AT_ATTRIBUTE))"
  by (cases "obj_get entity PUBLISHED_AT_ATTRIBUTE") (auto simp: publishedAt_typed_def is_null_def)

lemma unpublish_draft:
  "\<not> ToBoolean (obj_get entity PUBLISHED_AT_ATTRIBUTE) \<Longrightarrow>
     unpublish env entity uid body w = (Inl (ApplicationError ''already.draft''), w)"
  by (simp add: unpublish_def)

lemma fst_unpublish_published:
  "ToBoolean (obj_get entity PUBLISHED_AT_ATTRIBUTE) \<Longrightarrow>
     fst (unpublish env entity uid body w) \<noteq> Inl (ApplicationError ''already.draft'')"
  by (auto simp: unpublish_def Let_def split: prod.splits sum.splits dest: mapEntity_error)

lemma snd_unpublish_published:
  "ToBoolean (obj_get entity PUBLISHED_AT_ATTRIBUTE) \<Longrightarrow>
   snd (unpublish env entity uid body w) =
     (let data = obj_set PUBLISHED_AT_ATTRIBUTE JNull (case body of None \<Rightarrow> [] | Some b \<Rightarrow> b);
          params = JObj [(''data'', JObj data),
                         (''populate'',
                          populate_builder env uid (\<not> isWebhooksPopulateRelationsEnabled env))];
          r = entityService_update env uid (obj_get entity ''id'') params (store w)
      in \<lparr> store = snd r,
           trace = trace w @
             [BuildDeepPopulate uid,
              EntityServiceUpdate uid (obj_get entity ''id'') params,
              Emit ENTRY_UNPUBLISH
                (JObj [(''model'', JStr (modelName (getModel env uid))),
                       (''entry'', defaultSanitizeOutput env (getModel env uid) (fst r))])] \<rparr>)"
  by (simp add: unpublish_def buildDeepPopulate_def emitEvent_def issue_def Let_def
      split: prod.splits sum.splits)

text \<open>
  Claim C3. \<open>unpublish\<close> fails with the \<open>ApplicationError\<close> of token
  \<open>already.draft\<close> if and only if the test \<open>!entity[PUBLISHED_AT_ATTRIBUTE]\<close> succeeds;
  for every entry, whose \<open>publishedAt\<close> is a nullable timestamp, that is if and only if
  \<open>publishedAt\<close> is null. Otherwise its calls are, in this order, the construction of the
  populate specification, one \<open>update\<close> of the entity service on the identifier of the
  entry, whose data is the patch with \<open>publishedAt\<close> set to \<open>null\<close>, and one \<open>unpublish\<close>
  event for the updated entry; nothing else is emitted.
\<close>

theorem unpublish_already_draft_iff:
  "((fst (unpublish env entity uid body w) = Inl (ApplicationError ''already.draft''))
      = (\<not> ToBoolean (obj_get entity PUBLISHED_AT_ATTRIBUTE))) \<and>
   (publishedAt_typed entity \<longrightarrow>
      (fst (unpublish env entity uid body w) = Inl (ApplicationError ''already.draft''))
        = is_null (obj_get entity PUBLISHED_AT_ATTRIBUTE)) \<and>
   (ToBoolean (obj_get entity PUBLISHED_AT_ATTRIBUTE) \<longrightarrow>
     (let data = obj_set PUBLISHED_AT_ATTRIBUTE JNull (case body of None \<Rightarrow> [] | Some b \<Rightarrow> b);
          params = JObj [(''data'', JObj data),
                         (''populate'',
                          populate_builder env uid (\<not> isWebhooksPopulateRelationsEnabled env))];
          r = entityService_update env uid (obj_get entity ''id'') params (store w)
      in trace (snd (unpublish env entity uid body w)) =
           trace w @
             [BuildDeepPopulate uid,
              EntityServiceUpdate uid (obj_get entity ''id'') params,
              Emit ENTRY_UNPUBLISH
                (JObj [(''model'', JStr (modelName (getModel env uid))),
                       (''entry'', defaultSanitizeOutput env (getModel env uid) (fst r))])] \<and>
         store (snd (unpublish env entity uid body w)) = snd r \<and>
         obj_get data PUBLISHED_AT_ATTRIBUTE = JNull \<and>
         (\<forall>k. k \<noteq> PUBLISHED_AT_ATTRIBUTE \<longrightarrow>
              obj_get data k = obj_get (case body of None \<Rightarrow> [] | Some b \<Rightarrow> b) k)))"
proof (cases "ToBoolean (obj_get entity PUBLISHED_AT_ATTRIBUTE)")
  case False
  then show ?thesis
    using typed_truthy [of entity] by (auto simp: unpublish_draft)
next
  case True
  have "publishedAt_typed entity \<longrightarrow> \<not> is_null (obj_get entity PUBLISHED_AT_ATTRIBUTE)"
    using True typed_truthy [of entity] by simp
  then show ?thesis
    using True fst_unpublish_published [OF True, of env uid body w]
    by (simp add: snd_unpublish_published [OF True] Let_def obj_get_set)
qed

text \<open>
  On a store of one published and one draft entry: unpublishing the draft fails and
  leaves the world as it was; unpublishing the published one with a patch of the title
  writes the patch and the null date, and emits one event.
\<close>

theorem unpublish_already_draft_iff_witness:
  "unpublish mem_env (article 2 JNull) ''api::article.article'' None
     (world0 [article 1 (JDate 5), article 2 JNull]) =
     (Inl (ApplicationError ''already.draft''), world0 [article 1 (JDate 5), article 2 JNull]) \<and>
   unpublish mem_env (article 1 (JDate 5)) ''api::article.article'' (Some [(''title'', JStr ''x'')])
     (world0 [article 1 (JDate 5), article 2 JNull]) =
     (Inr (JObj [(''id'', JNum (Fin 1)), (''title'', JStr ''x''), (''publishedAt'', JNull)]),
      \<lparr> store = [[(''id'', JNum (Fin 1)), (''title'', JStr ''x''), (''publishedAt'', JNull)],
                 article 2 JNull],
        trace = [BuildDeepPopulate ''api::article.article'',
                 EntityServiceUpdate ''api::article.article'' (JNum (Fin 1))
                   (JObj [(''data'', JObj [(''title'', JStr ''x''), (''publishedAt'', JNull)]),
                          (''populate'', JObj [])]),
                 Emit ENTRY_UNPUBLISH
                   (JObj [(''model'', JStr ''article''),
                          (''entry'', JObj [(''id'', JNum (Fin 1)), (''title'', JStr ''x''),
                                            (''publishedAt'', JNull)])])] \<rparr>)"
  using unpublish_already_draft_iff
    [where entity = "article 2 JNull" and env = mem_env and uid = "''api::article.article''"
       and body = None and w = "world0 [article 1 (JDate 5), article 2 JNull]"]
    unpublish_already_draft_iff
    [where entity = "article 1 (JDate 5)" and env = mem_env and uid = "''api::article.article''"
       and body = "Some [(''title'', JStr ''x'')]"
       and w = "world0 [article 1 (JDate 5), article 2 JNull]"]
  by (simp add: unpublish_def buildDeepPopulate_def emitEvent_def issue_def
      relationsCountIfEnabled_def Let_def publishedAt_typed_def is_null_def example_defs)

text \<open>
  Claim C10. When \<open>unpublish\<close> fails with \<open>already.draft\<close>, the world after the call is
  the world before it: the trace has no new call (no populate specification was built,
  no write issued, no event emitted) and the store is the same. The failure is what
  happens whenever the test of \<open>publishedAt\<close> fails.
\<close>

theorem unpublish_already_draft_touches_nothing:
  "(\<not> ToBoolean (obj_get entity PUBLISHED_AT_ATTRIBUTE) \<longrightarrow>
      unpublish env entity uid body w = (Inl (ApplicationError ''already.draft''), w)) \<and>
   (fst (unpublish env entity uid body w) = Inl (ApplicationError ''already.draft'') \<longrightarrow>
      snd (unpublish env entity uid body w) = w \<and>
      trace (snd (unpublish env entity uid body w)) = trace w \<and>
      store (snd (unpublish env entity uid body w)) = store w)"
proof (cases "ToBoolean (obj_get entity PUBLISHED_AT_ATTRIBUTE)")
  case True
  then show ?thesis
    using fst_unpublish_published [OF True, of env uid body w] by simp
next
  case False
  then show ?thesis by (simp add: unpublish_draft)
qed

theorem unpublish_already_draft_touches_nothing_witness:
  "\<not> ToBoolean (obj_get (article 2 JNull) PUBLISHED_AT_ATTRIBUTE) \<and>
   unpublish mem_env (article 2 JNull) ''api::article.article'' (Some [(''title'', JStr ''x'')])
     (world0 [article 2 JNull]) =
     (Inl (ApplicationError ''already.draft''), \<lparr> store = [article 2 JNull], trace = [] \<rparr>)"
  using unpublish_already_draft_touches_nothing
    [where entity = "article 2 JNull" and env = mem_env and uid = "''api::article.article''"
       and body = "Some [(''title'', JStr ''x'')]" and w = "world0 [article 2 JNull]"]
  by (simp add: example_defs)

section \<open>Publishing a batch\<close>

lemma Promise_all_Inl:
  "\<exists>e. Inl e \<in> set ps \<Longrightarrow> \<exists>e. Promise_all ps = Inl e \<and> Inl e \<in> set ps"
  by (induction ps rule: Promise_all.induct) (auto split: sum.splits)

lemma Promise_all_Inr:
  "\<forall>p\<in>set ps. \<exists>x. p = Inr x \<Longrightarrow> \<exists>xs. Promise_all ps = Inr xs"
  by (induction ps rule: Promise_all.induct) (auto split: sum.splits)

lemma trace_emitEvents:
  "trace (emitEvents env uid event es w) =
     trace w @ map (\<lambda>entity. Emit event
       (JObj [(''model'', JStr (modelName (getModel env uid))),
              (''entry'', defaultSanitizeOutput env (getModel env uid) entity)])) es"
  unfolding emitEvents_def
  by (induction es arbitrary: w) (simp_all add: emitEvent_def issue_def Let_def)

lemma store_emitEvents: "store (emitEvents env uid event es w) = store w"
  unfolding emitEvents_def
  by (induction es arbitrary: w) (simp_all add: emitEvent_def issue_def Let_def)

lemma idsWhere_none: "\<forall>entity\<in>set entities. \<not> keep entity \<Longrightarrow> idsWhere keep entities = []"
  by (simp add: idsWhere_def)

lemma is_timestamp_truthy: "is_timestamp v \<Longrightarrow> ToBoolean v"
  by (cases v) auto

text \<open>What a batch that passes the validation does.\<close>

lemma publishMany_valid:
  assumes "entities \<noteq> []"
    and "\<forall>entity\<in>set entities. \<exists>v. validateEntityCreation env (getModel env uid) entity = Inr v"
  shows "publishMany env entities uid w =
     (let filters = idFilters
            (idsWhere (\<lambda>entity. \<not> ToBoolean (obj_get entity PUBLISHED_AT_ATTRIBUTE)) entities);
          updateParams = JObj [(''where'', filters),
                               (''data'', JObj [(PUBLISHED_AT_ATTRIBUTE, JDate (now env))])];
          findParams = JObj [(''filters'', filters),
                             (''populate'',
                              populate_builder env uid (\<not> isWebhooksPopulateRelationsEnabled env))];
          r = db_updateMany env uid updateParams (store w);
          w3 = w\<lparr> store := snd r,
                  trace := trace w @ [BuildDeepPopulate uid, DbUpdateMany uid updateParams,
                                      EntityServiceFindMany uid findParams] \<rparr>
      in case entityService_findMany env uid findParams (snd r) of
           JArr es \<Rightarrow> (Inr (fst r), emitEvents env uid ENTRY_PUBLISH es w3)
         | _ \<Rightarrow> (Inl TypeError, w3))"
proof -
  have "\<forall>p\<in>set (map (validateEntityCreation env (getModel env uid)) entities). \<exists>x. p = Inr x"
    using assms(2) by auto
  then obtain xs where
    "Promise_all (map (validateEntityCreation env (getModel env uid)) entities) = Inr xs"
    using Promise_all_Inr by blast
  then show ?thesis
    using assms(1)
    by (simp add: publishMany_def buildDeepPopulate_def issue_def Let_def
        split: prod.splits jsval.splits)
qed

text \<open>
  Claim C2. When the list is not empty and the validation of at least one entry fails,
  \<open>publishMany\<close> fails with the failure of the validation of one of the entries, and the
  world after the call is the world before it: no bulk update, no other call and no
  event was issued, and the store is the same, so no entry was published.
\<close>

theorem publishMany_validation_gate:
  assumes "entities \<noteq> []"
    and "\<exists>entity\<in>set entities. \<exists>e. validateEntityCreation env (getModel env uid) entity = Inl e"
  shows "(\<exists>entity\<in>set entities. \<exists>e.
            validateEntityCreation env (getModel env uid) entity = Inl e \<and>
            fst (publishMany env entities uid w) = Inl e) \<and>
         snd (publishMany env entities uid w) = w \<and>
         trace (snd (publishMany env entities uid w)) = trace w \<and>
         store (snd (publishMany env entities uid w)) = store w"
proof -
  from assms(2)
  have "\<exists>e. Inl e \<in> set (map (validateEntityCreation env (getModel env uid)) entities)"
    by force
  then obtain e
    where e: "Promise_all (map (validateEntityCreation env (getModel env uid)) entities) = Inl e"
      and mem: "Inl e \<in> set (map (validateEntityCreation env (getModel env uid)) entities)"
    using Promise_all_Inl by blast
  have r: "publishMany env entities uid w = (Inl e, w)"
    using assms(1) e by (simp add: publishMany_def)
  from mem obtain entity where "entity \<in> set entities"
    "validateEntityCreation env (getModel env uid) entity = Inl e"
    by auto
  then show ?thesis using r by auto
qed

text \<open>
  Two drafts, the second without the title that the validator of the examples requires:
  the batch fails and the first draft is not published either.
\<close>

theorem publishMany_validation_gate_witness:
  "publishMany mem_env [article 1 JNull, [(''id'', JNum (Fin 2)), (''publishedAt'', JNull)]]
     ''api::article.article''
     (world0 [article 1 JNull, [(''id'', JNum (Fin 2)), (''publishedAt'', JNull)]]) =
   (Inl (ValidationError ''title must be defined.''),
    \<lparr> store = [article 1 JNull, [(''id'', JNum (Fin 2)), (''publishedAt'', JNull)]],
      trace = [] \<rparr>)"
  using publishMany_validation_gate
    [where env = mem_env and uid = "''api::article.article''"
       and entities = "[article 1 JNull, [(''id'', JNum (Fin 2)), (''publishedAt'', JNull)]]"
       and w = "world0 [article 1 JNull, [(''id'', JNum (Fin 2)), (''publishedAt'', JNull)]]"]
  by (simp add: publishMany_def example_defs)

text \<open>
  Claim C1, as stated, does not hold: \<open>publishMany\<close> has no test for an empty selection.
  When every entry is published already, the bulk update is issued all the same, with an
  empty list of identifiers, and so is the query for the updated entries. Here on one
  published entry, with the store in memory.
\<close>

theorem publishMany_all_published_counterexample:
  "publishMany mem_env [article 1 (JDate 5)] ''api::article.article''
     (world0 [article 1 (JDate 5), article 2 JNull]) =
   (Inr (JObj [(''count'', JNum (Fin 0))]),
    \<lparr> store = [article 1 (JDate 5), article 2 JNull],
      trace =
        [BuildDeepPopulate ''api::article.article'',
         DbUpdateMany ''api::article.article''
           (JObj [(''where'', JObj [(''id'', JObj [(''$in'', JArr [])])]),
                  (''data'', JObj [(''publishedAt'', JDate 1700000000000)])]),
         EntityServiceFindMany ''api::article.article''
           (JObj [(''filters'', JObj [(''id'', JObj [(''$in'', JArr [])])]),
                  (''populate'', JObj [])])] \<rparr>)"
  by (simp add: publishMany_def buildDeepPopulate_def issue_def emitEvents_def idsWhere_def
      idFilters_def Let_def example_defs)

text \<open>
  Claim C1, amended. For every non-empty list of entries that all pass the validation
  and all have a publication date, \<open>publishMany\<close> builds the populate specification,
  issues one bulk update whose filter has an empty list of identifiers, and asks the
  entity service for the entries of the same filter. It returns what the bulk update
  returned, the count of the rows it changed, and emits one \<open>publish\<close> event for each
  entry that the query returns: none when the query returns none.
\<close>

theorem publishMany_all_published:
  assumes "entities \<noteq> []"
    and "\<forall>entity\<in>set entities. \<exists>v. validateEntityCreation env (getModel env uid) entity = Inr v"
    and "\<forall>entity\<in>set entities. is_timestamp (obj_get entity PUBLISHED_AT_ATTRIBUTE)"
    and "updateParams = JObj [(''where'', idFilters []),
                              (''data'', JObj [(PUBLISHED_AT_ATTRIBUTE, JDate (now env))])]"
    and "findParams = JObj [(''filters'', idFilters []),
                            (''populate'',
                             populate_builder env uid (\<not> isWebhooksPopulateRelationsEnabled env))]"
    and "entityService_findMany env uid findParams
           (snd (db_updateMany env uid updateParams (store w))) = JArr es"
  shows "fst (publishMany env entities uid w) =
           Inr (fst (db_updateMany env uid updateParams (store w))) \<and>
         trace (snd (publishMany env entities uid w)) =
           trace w @ [BuildDeepPopulate uid, DbUpdateMany uid updateParams,
                      EntityServiceFindMany uid findParams] @
           map (\<lambda>entity. Emit ENTRY_PUBLISH
                  (JObj [(''model'', JStr (modelName (getModel env uid))),
                         (''entry'', defaultSanitizeOutput env (getModel env uid) entity)])) es \<and>
         store (snd (publishMany env entities uid w)) =
           snd (db_updateMany env uid updateParams (store w)) \<and>
         (es = [] \<longrightarrow>
            trace (snd (publishMany env entities uid w)) =
              trace w @ [BuildDeepPopulate uid, DbUpdateMany uid updateParams,
                         EntityServiceFindMany uid findParams])"
proof -
  have none:
    "idsWhere (\<lambda>entity. \<not> ToBoolean (obj_get entity PUBLISHED_AT_ATTRIBUTE)) entities = []"
    using assms(3) by (simp add: idsWhere_none is_timestamp_truthy)
  have "publishMany env entities uid w =
      (Inr (fst (db_updateMany env uid updateParams (store w))),
       emitEvents env uid ENTRY_PUBLISH es
         (w\<lparr> store := snd (db_updateMany env uid updateParams (store w)),
            trace := trace w @ [BuildDeepPopulate uid, DbUpdateMany uid updateParams,
                                EntityServiceFindMany uid findParams] \<rparr>))"
    using assms(4,5,6) by (simp add: publishMany_valid [OF assms(1,2)] none Let_def)
  then show ?thesis
    by (auto simp: trace_emitEvents store_emitEvents)
qed

text \<open>
  Two published entries against the store in memory: the bulk update reports no row,
  the store is what it was, and no event is emitted.
\<close>

theorem publishMany_all_published_witness:
  "publishMany mem_env [article 1 (JDate 5), article 3 (JStr ''2024-01-01'')]
     ''api::article.article''
     (world0 [article 1 (JDate 5), article 2 JNull, article 3 (JStr ''2024-01-01'')]) =
   (Inr (JObj [(''count'', JNum (Fin 0))]),
    \<lparr> store = [article 1 (JDate 5), article 2 JNull, article 3 (JStr ''2024-01-01'')],
      trace =
        [BuildDeepPopulate ''api::article.article'',
         DbUpdateMany ''api::article.article''
           (JObj [(''where'', JObj [(''id'', JObj [(''$in'', JArr [])])]),
                  (''data'', JObj [(''publishedAt'', JDate 1700000000000)])]),
         EntityServiceFindMany ''api::article.article''
           (JObj [(''filters'', JObj [(''id'', JObj [(''$in'', JArr [])])]),
                  (''populate'', JObj [])])] \<rparr>)"
  using publishMany_all_published
    [where env = mem_env and uid = "''api::article.article''"
       and entities = "[article 1 (JDate 5), article 3 (JStr ''2024-01-01'')]"
       and w = "world0 [article 1 (JDate 5), article 2 JNull, article 3 (JStr ''2024-01-01'')]"
       and es = "[]", OF _ _ _ refl refl]
  by (simp add: publishMany_def buildDeepPopulate_def issue_def emitEvents_def idsWhere_def
      idFilters_def Let_def example_defs)

text \<open>
  \<open>unpublishMany\<close> is built the same way: a batch of drafts only issues the bulk
  update with an empty list of identifiers.
\<close>

lemma unpublishMany_all_drafts_example:
  "unpublishMany mem_env [article 2 JNull] ''api::article.article''
     (world0 [article 1 (JDate 5), article 2 JNull]) =
   (Inr (JObj [(''count'', JNum (Fin 0))]),
    \<lparr> store = [article 1 (JDate 5), article 2 JNull],
      trace =
        [BuildDeepPopulate ''api::article.article'',
         DbUpdateMany ''api::article.article''
           (JObj [(''where'', JObj [(''id'', JObj [(''$in'', JArr [])])]),
                  (''data'', JObj [(''publishedAt'', JNull)])]),
         EntityServiceFindMany ''api::article.article''
           (JObj [(''filters'', JObj [(''id'', JObj [(''$in'', JArr [])])]),
                  (''populate'', JObj [])])] \<rparr>)"
  by (simp add: unpublishMany_def buildDeepPopulate_def issue_def emitEvents_def idsWhere_def
      idFilters_def Let_def example_defs)

section \<open>Reading one entry\<close>

text \<open>
  Claim C5, as stated, does not hold: \<open>findOne\<close> passes what the lookup returns
  through \<open>mapEntity\<close>. An entry that carries a \<open>documentId\<close> comes back remapped, not
  as the lookup returned it.
\<close>

theorem findOne_unchanged_counterexample:
  "documents_findOne mem_env ''api::article.article'' (JStr ''d1'') (JObj [])
     [documentRow 1 ''d1''] =
     JObj [(''id'', JNum (Fin 1)), (''documentId'', JStr ''d1''), (''title'', JStr ''t'')] \<and>
   fst (findOne mem_env (JStr ''d1'') ''api::article.article'' JUndefined
          (world0 [documentRow 1 ''d1''])) =
     Inr (JObj [(''id'', JStr ''d1''), (''title'', JStr ''t''), (''entryId'', JNum (Fin 1))]) \<and>
   fst (findOne mem_env (JStr ''d1'') ''api::article.article'' JUndefined
          (world0 [documentRow 1 ''d1''])) \<noteq>
     Inr (documents_findOne mem_env ''api::article.article'' (JStr ''d1'') (JObj [])
            [documentRow 1 ''d1''])"
  by (simp add: findOne_def issue_def Let_def example_defs)

text \<open>
  Claim C5, amended. When the lookup returns an entry, \<open>findOne\<close> returns this entry
  after the identifier remapping: unchanged when it has no \<open>documentId\<close>, and otherwise
  with the \<open>documentId\<close> as its \<open>id\<close>, the former \<open>id\<close> as its \<open>entryId\<close>, no
  \<open>documentId\<close>, and every other property as it was. The store is only read.
\<close>

theorem findOne_remaps_found_entry:
  assumes "documents_findOne env uid ident (if opts = JUndefined then JObj [] else opts) (store w)
             = JObj m"
  shows "fst (findOne env ident uid opts w) =
           Inr (JObj (if ToBoolean (obj_get m ''documentId'') then remap m else m)) \<and>
         (\<not> ToBoolean (obj_get m ''documentId'') \<longrightarrow>
            fst (findOne env ident uid opts w) = Inr (JObj m)) \<and>
         obj_get (remap m) ''id'' = obj_get m ''documentId'' \<and>
         obj_get (remap m) ''entryId'' = obj_get m ''id'' \<and>
         obj_get (remap m) ''documentId'' = JUndefined \<and>
         (\<forall>k. k \<noteq> ''id'' \<and> k \<noteq> ''entryId'' \<and> k \<noteq> ''documentId'' \<longrightarrow>
              obj_get (remap m) k = obj_get m k) \<and>
         store (snd (findOne env ident uid opts w)) = store w \<and>
         trace (snd (findOne env ident uid opts w)) =
           trace w @ [DocumentsFindOne uid ident (if opts = JUndefined then JObj [] else opts)]"
  using assms by (simp add: findOne_def issue_def Let_def obj_get_remap)

text \<open>One entry with a \<open>documentId\<close> and one without, both found.\<close>

theorem findOne_remaps_found_entry_witness:
  "findOne mem_env (JStr ''d1'') ''api::article.article'' JUndefined
     (world0 [article 2 JNull, documentRow 1 ''d1'']) =
     (Inr (JObj [(''id'', JStr ''d1''), (''title'', JStr ''t''), (''entryId'', JNum (Fin 1))]),
      \<lparr> store = [article 2 JNull, documentRow 1 ''d1''],
        trace = [DocumentsFindOne ''api::article.article'' (JStr ''d1'') (JObj [])] \<rparr>) \<and>
   fst (findOne mem_env (JNum (Fin 2)) ''api::article.article'' JUndefined
     (world0 [article 2 JNull, documentRow 1 ''d1''])) = Inr (JObj (article 2 JNull))"
  using findOne_remaps_found_entry
    [where env = mem_env and uid = "''api::article.article''" and ident = "JStr ''d1''"
       and opts = JUndefined and w = "world0 [article 2 JNull, documentRow 1 ''d1'']"
       and m = "documentRow 1 ''d1''"]
    findOne_remaps_found_entry
    [where env = mem_env and uid = "''api::article.article''" and ident = "JNum (Fin 2)"
       and opts = JUndefined and w = "world0 [article 2 JNull, documentRow 1 ''d1'']"
       and m = "article 2 JNull"]
  by (simp add: findOne_def issue_def Let_def example_defs)

text \<open>
  When the lookup finds nothing and returns \<open>null\<close>, \<open>mapEntity\<close> reads the
  \<open>documentId\<close> of \<open>null\<close>: the call ends in a \<open>TypeError\<close>, where
  \<open>mapEntitiesResponse\<close> documents \<open>null\<close> as one of the values it hands to
  \<open>mapEntity\<close>.
\<close>

lemma findOne_absent_fails:
  "documents_findOne env uid ident (if opts = JUndefined then JObj [] else opts) (store w) = JNull
   \<Longrightarrow> fst (findOne env ident uid opts w) = Inl TypeError"
  by (simp add: findOne_def Let_def)

lemma findOne_absent_example:
  "fst (findOne mem_env (JStr ''d2'') ''api::article.article'' JUndefined
          (world0 [documentRow 1 ''d1''])) = Inl TypeError"
  by (simp add: findOne_def issue_def Let_def example_defs)

section \<open>Reading a page\<close>

lemma mapEntitiesResponse_keeps:
  "mapEntitiesResponse (JObj [(''results'', d), (''pagination'', p)]) = Inr r
   \<Longrightarrow> js_get_opt r ''pagination'' = p"
  by (auto simp: obj_get_def obj_set_def split: if_splits sum.splits)

lemma mapEntitiesResponse_list:
  "\<forall>e\<in>set es. e \<noteq> JNull \<and> e \<noteq> JUndefined \<Longrightarrow>
   \<exists>r. mapEntitiesResponse (JObj [(''results'', JArr es), (''pagination'', p)]) = Inr r"
proof -
  assume "\<forall>e\<in>set es. e \<noteq> JNull \<and> e \<noteq> JUndefined"
  then have "\<forall>e\<in>set es. \<exists>y. mapEntity e = Inr y"
    using mapEntity_defined by blast
  then obtain es' where "mapEach es mapEntity = Inr es'"
    using mapEach_total by blast
  then show ?thesis by (simp add: obj_get_def mapAsync_def)
qed

lemma num_or_cases: "num_or n d = (if n = NaN \<or> n = Fin 0 then d else n)"
  by (simp add: num_or_def)

text \<open>What a call that returns has computed.\<close>

lemma findPage_Inr:
  assumes "fst (findPage env opts uid w) = Inr r"
  shows "\<exists>pageNumber pageSizeNumber totalNumber.
      Number_js (js_get_opt opts ''page'') = Inr pageNumber \<and>
      Number_js (js_get_opt opts ''pageSize'') = Inr pageSizeNumber \<and>
      Number_js (if documents_count env uid opts (store w) = JUndefined then JNum (Fin 0)
                 else documents_count env uid opts (store w)) = Inr totalNumber \<and>
      js_get_opt r ''pagination'' =
        JObj [(''page'', JNum (num_or pageNumber (Fin 1))),
              (''pageSize'', JNum (num_or pageSizeNumber (Fin 10))),
              (''pageCount'',
               JNum (js_ceil (js_div totalNumber (num_or pageSizeNumber (Fin 10))))),
              (''total'', if documents_count env uid opts (store w) = JUndefined
                          then JNum (Fin 0) else documents_count env uid opts (store w))]"
proof (cases "Number_js (js_get_opt opts ''page'')")
  case (Inl e)
  then show ?thesis using assms by (simp add: findPage_def)
next
  case p: (Inr pageNumber)
  show ?thesis
  proof (cases "Number_js (js_get_opt opts ''pageSize'')")
    case (Inl e)
    then show ?thesis using assms p by (simp add: findPage_def)
  next
    case ps: (Inr pageSizeNumber)
    show ?thesis
    proof (cases "Number_js (if documents_count env uid opts (store w) = JUndefined
                             then JNum (Fin 0) else documents_count env uid opts (store w))")
      case (Inl e)
      then show ?thesis using assms p ps by (simp add: findPage_def Let_def)
    next
      case t: (Inr totalNumber)
      have "mapEntitiesResponse
          (JObj [(''results'', documents_findMany env uid opts (store w)),
                 (''pagination'',
                  JObj [(''page'', JNum (num_or pageNumber (Fin 1))),
                        (''pageSize'', JNum (num_or pageSizeNumber (Fin 10))),
                        (''pageCount'',
                         JNum (js_ceil (js_div totalNumber (num_or pageSizeNumber (Fin 10))))),
                        (''total'', if documents_count env uid opts (store w) = JUndefined
                                    then JNum (Fin 0)
                                    else documents_count env uid opts (store w))])]) = Inr r"
        using assms p ps t by (simp add: findPage_def Let_def del: mapEntitiesResponse.simps)
      then show ?thesis
        using p ps t by (simp only: mapEntitiesResponse_keeps) simp
    qed
  qed
qed

lemma findPage_returns:
  assumes "Number_js (js_get_opt opts ''page'') = Inr pageNumber"
    and "Number_js (js_get_opt opts ''pageSize'') = Inr pageSizeNumber"
    and "Number_js (if documents_count env uid opts (store w) = JUndefined then JNum (Fin 0)
                    else documents_count env uid opts (store w)) = Inr totalNumber"
    and "\<And>p. \<exists>r. mapEntitiesResponse
            (JObj [(''results'', documents_findMany env uid opts (store w)), (''pagination'', p)])
          = Inr r"
  shows "\<exists>r. fst (findPage env opts uid w) = Inr r"
  using assms by (simp add: findPage_def Let_def del: mapEntitiesResponse.simps)

text \<open>
  Claim C6. In the pagination that \<open>findPage\<close> returns, \<open>page\<close> is 1 and \<open>pageSize\<close> is
  10 when the option is not given or its conversion to a number is \<open>NaN\<close>, and the
  number of the option when that is neither \<open>NaN\<close> nor zero; \<open>total\<close> is what the count
  query returned (0 when it returned \<open>undefined\<close>); \<open>pageCount\<close> is
  \<open>Math.ceil(total / pageSize)\<close>, the ceiling of the rounded quotient of two doubles,
  which for integers of the safe range is the ceiling of the exact quotient. The call
  returns whenever the list query returns a list of entries and no conversion to a
  number throws.
\<close>

theorem findPage_pagination:
  "(fst (findPage env opts uid w) = Inr r \<longrightarrow>
     (\<exists>page pageSize total totalNumber.
        js_get_opt r ''pagination'' =
          JObj [(''page'', JNum page), (''pageSize'', JNum pageSize),
                (''pageCount'', JNum (js_ceil (js_div totalNumber pageSize))),
                (''total'', total)] \<and>
        Number_js total = Inr totalNumber \<and>
        (js_get_opt opts ''page'' = JUndefined \<or>
         Number_js (js_get_opt opts ''page'') = Inr NaN \<longrightarrow> page = Fin 1) \<and>
        (js_get_opt opts ''pageSize'' = JUndefined \<or>
         Number_js (js_get_opt opts ''pageSize'') = Inr NaN \<longrightarrow> pageSize = Fin 10) \<and>
        (\<forall>n. Number_js (js_get_opt opts ''page'') = Inr n \<and> n \<noteq> NaN \<and> n \<noteq> Fin 0
              \<longrightarrow> page = n) \<and>
        (\<forall>n. Number_js (js_get_opt opts ''pageSize'') = Inr n \<and> n \<noteq> NaN \<and> n \<noteq> Fin 0
              \<longrightarrow> pageSize = n) \<and>
        total = (if documents_count env uid opts (store w) = JUndefined then JNum (Fin 0)
                 else documents_count env uid opts (store w)) \<and>
        (\<forall>t s :: int.
           total = JNum (Fin (of_int t)) \<and> pageSize = Fin (of_int s) \<and>
           0 \<le> t \<and> t < 2 ^ 53 \<and> 0 < s \<and> s < 2 ^ 53 \<longrightarrow>
           js_ceil (js_div totalNumber pageSize) =
             Fin (of_int \<lceil>(of_int t :: rat) / of_int s\<rceil>)))) \<and>
   ((\<exists>es. documents_findMany env uid opts (store w) = JArr es \<and>
          (\<forall>e\<in>set es. e \<noteq> JNull \<and> e \<noteq> JUndefined)) \<and>
    (\<exists>n. Number_js (js_get_opt opts ''page'') = Inr n) \<and>
    (\<exists>n. Number_js (js_get_opt opts ''pageSize'') = Inr n) \<and>
    (\<exists>n. Number_js (if documents_count env uid opts (store w) = JUndefined then JNum (Fin 0)
                     else documents_count env uid opts (store w)) = Inr n) \<longrightarrow>
    (\<exists>r. fst (findPage env opts uid w) = Inr r))"
proof (intro conjI impI)
  assume "fst (findPage env opts uid w) = Inr r"
  from findPage_Inr [OF this] obtain pageNumber pageSizeNumber totalNumber
    where p: "Number_js (js_get_opt opts ''page'') = Inr pageNumber"
      and ps: "Number_js (js_get_opt opts ''pageSize'') = Inr pageSizeNumber"
      and t: "Number_js (if documents_count env uid opts (store w) = JUndefined
                         then JNum (Fin 0)
                         else documents_count env uid opts (store w)) = Inr totalNumber"
      and pag: "js_get_opt r ''pagination'' =
        JObj [(''page'', JNum (num_or pageNumber (Fin 1))),
              (''pageSize'', JNum (num_or pageSizeNumber (Fin 10))),
              (''pageCount'',
               JNum (js_ceil (js_div totalNumber (num_or pageSizeNumber (Fin 10))))),
              (''total'', if documents_count env uid opts (store w) = JUndefined
                          then JNum (Fin 0) else documents_count env uid opts (store w))]"
    by blast
  define total where
    "total = (if documents_count env uid opts (store w) = JUndefined then JNum (Fin 0)
              else documents_count env uid opts (store w))"
  have u1: "js_get_opt opts ''page'' = JUndefined \<Longrightarrow> pageNumber = NaN"
    using p by simp
  have u2: "js_get_opt opts ''pageSize'' = JUndefined \<Longrightarrow> pageSizeNumber = NaN"
    using ps by simp
  have safe: "js_ceil (js_div totalNumber (num_or pageSizeNumber (Fin 10))) =
      Fin (of_int \<lceil>(of_int t :: rat) / of_int s\<rceil>)"
    if "total = JNum (Fin (of_int t))" "num_or pageSizeNumber (Fin 10) = Fin (of_int s)"
       "0 \<le> t" "t < 2 ^ 53" "0 < s" "s < 2 ^ 53" for t s :: int
  proof -
    have "totalNumber = Fin (of_int t)" using t that(1) by (simp add: total_def)
    then show ?thesis using that(2) js_ceil_div_safe [OF that(3-6)] by simp
  qed
  show "\<exists>page pageSize total totalNumber.
        js_get_opt r ''pagination'' =
          JObj [(''page'', JNum page), (''pageSize'', JNum pageSize),
                (''pageCount'', JNum (js_ceil (js_div totalNumber pageSize))),
                (''total'', total)] \<and>
        Number_js total = Inr totalNumber \<and>
        (js_get_opt opts ''page'' = JUndefined \<or>
         Number_js (js_get_opt opts ''page'') = Inr NaN \<longrightarrow> page = Fin 1) \<and>
        (js_get_opt opts ''pageSize'' = JUndefined \<or>
         Number_js (js_get_opt opts ''pageSize'') = Inr NaN \<longrightarrow> pageSize = Fin 10) \<and>
        (\<forall>n. Number_js (js_get_opt opts ''page'') = Inr n \<and> n \<noteq> NaN \<and> n \<noteq> Fin 0
              \<longrightarrow> page = n) \<and>
        (\<forall>n. Number_js (js_get_opt opts ''pageSize'') = Inr n \<and> n \<noteq> NaN \<and> n \<noteq> Fin 0
              \<longrightarrow> pageSize = n) \<and>
        total = (if documents_count env uid opts (store w) = JUndefined then JNum (Fin 0)
                 else documents_count env uid opts (store w)) \<and>
        (\<forall>t s :: int.
           total = JNum (Fin (of_int t)) \<and> pageSize = Fin (of_int s) \<and>
           0 \<le> t \<and> t < 2 ^ 53 \<and> 0 < s \<and> s < 2 ^ 53 \<longrightarrow>
           js_ceil (js_div totalNumber pageSize) =
             Fin (of_int \<lceil>(of_int t :: rat) / of_int s\<rceil>))"
  proof (rule exI [of _ "num_or pageNumber (Fin 1)"],
         rule exI [of _ "num_or pageSizeNumber (Fin 10)"],
         rule exI [of _ total], rule exI [of _ totalNumber], intro conjI)
    show "js_get_opt r ''pagination'' =
          JObj [(''page'', JNum (num_or pageNumber (Fin 1))),
                (''pageSize'', JNum (num_or pageSizeNumber (Fin 10))),
                (''pageCount'',
                 JNum (js_ceil (js_div totalNumber (num_or pageSizeNumber (Fin 10))))),
                (''total'', total)]"
      using pag by (simp only: total_def)
    show "Number_js total = Inr totalNumber" using t by (simp only: total_def)
    show "js_get_opt opts ''page'' = JUndefined \<or>
          Number_js (js_get_opt opts ''page'') = Inr NaN \<longrightarrow> num_or pageNumber (Fin 1) = Fin 1"
      using p u1 by (auto simp: num_or_cases)
    show "js_get_opt opts ''pageSize'' = JUndefined \<or>
          Number_js (js_get_opt opts ''pageSize'') = Inr NaN \<longrightarrow>
          num_or pageSizeNumber (Fin 10) = Fin 10"
      using ps u2 by (auto simp: num_or_cases)
    show "\<forall>n. Number_js (js_get_opt opts ''page'') = Inr n \<and> n \<noteq> NaN \<and> n \<noteq> Fin 0
              \<longrightarrow> num_or pageNumber (Fin 1) = n"
      using p by (auto simp: num_or_cases)
    show "\<forall>n. Number_js (js_get_opt opts ''pageSize'') = Inr n \<and> n \<noteq> NaN \<and> n \<noteq> Fin 0
              \<longrightarrow> num_or pageSizeNumber (Fin 10) = n"
      using ps by (auto simp: num_or_cases)
    show "total = (if documents_count env uid opts (store w) = JUndefined then JNum (Fin 0)
                   else documents_count env uid opts (store w))"
      by (simp only: total_def)
    show "\<forall>t s :: int.
           total = JNum (Fin (of_int t)) \<and> num_or pageSizeNumber (Fin 10) = Fin (of_int s) \<and>
           0 \<le> t \<and> t < 2 ^ 53 \<and> 0 < s \<and> s < 2 ^ 53 \<longrightarrow>
           js_ceil (js_div totalNumber (num_or pageSizeNumber (Fin 10))) =
             Fin (of_int \<lceil>(of_int t :: rat) / of_int s\<rceil>)"
      using safe by blast
  qed
next
  assume a: "(\<exists>es. documents_findMany env uid opts (store w) = JArr es \<and>
          (\<forall>e\<in>set es. e \<noteq> JNull \<and> e \<noteq> JUndefined)) \<and>
    (\<exists>n. Number_js (js_get_opt opts ''page'') = Inr n) \<and>
    (\<exists>n. Number_js (js_get_opt opts ''pageSize'') = Inr n) \<and>
    (\<exists>n. Number_js (if documents_count env uid opts (store w) = JUndefined then JNum (Fin 0)
                     else documents_count env uid opts (store w)) = Inr n)"
  then obtain es where es: "documents_findMany env uid opts (store w) = JArr es"
    and ok: "\<forall>e\<in>set es. e \<noteq> JNull \<and> e \<noteq> JUndefined"
    by blast
  from a obtain pn psn tn
    where n: "Number_js (js_get_opt opts ''page'') = Inr pn"
      "Number_js (js_get_opt opts ''pageSize'') = Inr psn"
      "Number_js (if documents_count env uid opts (store w) = JUndefined then JNum (Fin 0)
                  else documents_count env uid opts (store w)) = Inr tn"
    by blast
  show "\<exists>r. fst (findPage env opts uid w) = Inr r"
    by (rule findPage_returns [OF n]) (simp only: es mapEntitiesResponse_list [OF ok])
qed

text \<open>
  The example of the claim: page 2 of size 5 over the 12 rows of the store has
  \<open>pageCount\<close> 3 and \<open>total\<close> 12. And a page size that is no number: the default 10.
\<close>

theorem findPage_pagination_witness:
  "findPage mem_env (JObj [(''page'', JNum (Fin 2)), (''pageSize'', JNum (Fin 5))])
     ''api::article.article'' (world0 rows12) =
   (Inr (JObj [(''results'',
                JArr [JObj [(''id'', JNum (Fin 6))], JObj [(''id'', JNum (Fin 7))],
                      JObj [(''id'', JNum (Fin 8))], JObj [(''id'', JNum (Fin 9))],
                      JObj [(''id'', JNum (Fin 10))]]),
               (''pagination'',
                JObj [(''page'', JNum (Fin 2)), (''pageSize'', JNum (Fin 5)),
                      (''pageCount'', JNum (Fin 3)), (''total'', JNum (Fin 12))])]),
    \<lparr> store = rows12,
      trace = [DocumentsFindMany ''api::article.article''
                 (JObj [(''page'', JNum (Fin 2)), (''pageSize'', JNum (Fin 5))]),
               DocumentsCount ''api::article.article''
                 (JObj [(''page'', JNum (Fin 2)), (''pageSize'', JNum (Fin 5))])] \<rparr>) \<and>
   fst (findPage mem_env (JObj [(''pageSize'', JStr ''abc'')]) ''api::article.article''
          (world0 [article 1 JNull, article 2 JNull, article 3 JNull])) =
     Inr (JObj [(''results'',
                 JArr [JObj (article 1 JNull), JObj (article 2 JNull), JObj (article 3 JNull)]),
                (''pagination'',
                 JObj [(''page'', JNum (Fin 1)), (''pageSize'', JNum (Fin 10)),
                       (''pageCount'', JNum (Fin 1)), (''total'', JNum (Fin 3))])])"
  using findPage_pagination
    [where env = mem_env and uid = "''api::article.article''" and w = "world0 rows12"
       and opts = "JObj [(''page'', JNum (Fin 2)), (''pageSize'', JNum (Fin 5))]"
       and r = "JObj [(''results'',
                JArr [JObj [(''id'', JNum (Fin 6))], JObj [(''id'', JNum (Fin 7))],
                      JObj [(''id'', JNum (Fin 8))], JObj [(''id'', JNum (Fin 9))],
                      JObj [(''id'', JNum (Fin 10))]]),
               (''pagination'',
                JObj [(''page'', JNum (Fin 2)), (''pageSize'', JNum (Fin 5)),
                      (''pageCount'', JNum (Fin 3)), (''total'', JNum (Fin 12))])]"]
  by (simp add: findPage_def num_or_def issue_def mapAsync_def Let_def parse_eval round_eval
      example_defs)

text \<open>
  Claim C9. A \<open>page\<close> or \<open>pageSize\<close> whose conversion is zero is replaced by the
  default as well. The \<open>pageSize\<close> of the pagination, which is the divisor of the page
  count, is never zero and never \<open>NaN\<close>: the division is never one by zero.
\<close>

theorem findPage_pageSize_never_zero:
  assumes "fst (findPage env opts uid w) = Inr r"
  shows "\<exists>page pageSize total totalNumber.
     js_get_opt r ''pagination'' =
       JObj [(''page'', JNum page), (''pageSize'', JNum pageSize),
             (''pageCount'', JNum (js_ceil (js_div totalNumber pageSize))),
             (''total'', total)] \<and>
     Number_js total = Inr totalNumber \<and>
     page \<noteq> Fin 0 \<and> page \<noteq> NaN \<and> pageSize \<noteq> Fin 0 \<and> pageSize \<noteq> NaN \<and>
     (Number_js (js_get_opt opts ''page'') = Inr (Fin 0) \<longrightarrow> page = Fin 1) \<and>
     (Number_js (js_get_opt opts ''pageSize'') = Inr (Fin 0) \<longrightarrow> pageSize = Fin 10)"
proof -
  from findPage_Inr [OF assms] obtain pageNumber pageSizeNumber totalNumber
    where p: "Number_js (js_get_opt opts ''page'') = Inr pageNumber"
      and ps: "Number_js (js_get_opt opts ''pageSize'') = Inr pageSizeNumber"
      and t: "Number_js (if documents_count env uid opts (store w) = JUndefined
                         then JNum (Fin 0)
                         else documents_count env uid opts (store w)) = Inr totalNumber"
      and pag: "js_get_opt r ''pagination'' =
        JObj [(''page'', JNum (num_or pageNumber (Fin 1))),
              (''pageSize'', JNum (num_or pageSizeNumber (Fin 10))),
              (''pageCount'',
               JNum (js_ceil (js_div totalNumber (num_or pageSizeNumber (Fin 10))))),
              (''total'', if documents_count env uid opts (store w) = JUndefined
                          then JNum (Fin 0) else documents_count env uid opts (store w))]"
    by blast
  have nz: "num_or pageNumber (Fin 1) \<noteq> Fin 0 \<and> num_or pageNumber (Fin 1) \<noteq> NaN \<and>
      num_or pageSizeNumber (Fin 10) \<noteq> Fin 0 \<and> num_or pageSizeNumber (Fin 10) \<noteq> NaN"
    by (simp add: num_or_cases)
  have dflt:
    "(Number_js (js_get_opt opts ''page'') = Inr (Fin 0) \<longrightarrow> num_or pageNumber (Fin 1) = Fin 1) \<and>
     (Number_js (js_get_opt opts ''pageSize'') = Inr (Fin 0) \<longrightarrow>
        num_or pageSizeNumber (Fin 10) = Fin 10)"
    using p ps by (auto simp: num_or_cases)
  show ?thesis
    using pag t nz dflt by blast
qed

text \<open>A page that is the string \<open>0\<close> and a page size of \<open>null\<close>, which converts to 0.\<close>

theorem findPage_pageSize_never_zero_witness:
  "findPage mem_env (JObj [(''page'', JStr ''0''), (''pageSize'', JNull)])
     ''api::article.article'' (world0 [article 1 JNull, article 2 JNull, article 3 JNull]) =
   (Inr (JObj [(''results'',
                JArr [JObj (article 1 JNull), JObj (article 2 JNull), JObj (article 3 JNull)]),
               (''pagination'',
                JObj [(''page'', JNum (Fin 1)), (''pageSize'', JNum (Fin 10)),
                      (''pageCount'', JNum (Fin 1)), (''total'', JNum (Fin 3))])]),
    \<lparr> store = [article 1 JNull, article 2 JNull, article 3 JNull],
      trace = [DocumentsFindMany ''api::article.article''
                 (JObj [(''page'', JStr ''0''), (''pageSize'', JNull)]),
               DocumentsCount ''api::article.article''
                 (JObj [(''page'', JStr ''0''), (''pageSize'', JNull)])] \<rparr>)"
  using findPage_pageSize_never_zero
    [where env = mem_env and uid = "''api::article.article''"
       and w = "world0 [article 1 JNull, article 2 JNull, article 3 JNull]"
       and opts = "JObj [(''page'', JStr ''0''), (''pageSize'', JNull)]"
       and r = "JObj [(''results'',
                JArr [JObj (article 1 JNull), JObj (article 2 JNull), JObj (article 3 JNull)]),
               (''pagination'',
                JObj [(''page'', JNum (Fin 1)), (''pageSize'', JNum (Fin 10)),
                      (''pageCount'', JNum (Fin 1)), (''total'', JNum (Fin 3))])]"]
  by (simp add: findPage_def num_or_def issue_def mapAsync_def Let_def parse_eval round_eval
      example_defs)

text \<open>
  A conversion that throws ends the call before any query: an object with an own
  \<open>toString\<close> as page size.
\<close>

lemma findPage_conversion_throws_example:
  "findPage mem_env (JObj [(''pageSize'', JObj [(''toString'', JStr ''1'')])])
     ''api::article.article'' (world0 [article 1 JNull]) =
   (Inl TypeError, world0 [article 1 JNull])"
  by (simp add: findPage_def example_defs)

text \<open>A \<open>results\<close> that is a string is iterated character by character.\<close>

lemma mapEntitiesResponse_string_example:
  "mapEntitiesResponse (JObj [(''results'', JStr ''ab'')]) =
     Inr (JObj [(''results'', JArr [JStr ''a'', JStr ''b''])])"
  "mapEntitiesResponse (JObj [(''results'', JNum (Fin 1))]) = Inl TypeError"
  by (simp_all add: mapAsync_def obj_get_def obj_set_def)

end
